theory Spec2Isabelle
  imports Complex_Main
begin

section \<open>Values, errors and the libraries the engines call\<close>

text \<open>
  The two engines of \<^verbatim>\<open>src/analytics\<close> are embedded as HOL functions.
  Python floats are modelled by exact real numbers: rounding error and overflow are not
  represented. Where the float computation of the source leaves the finite numbers
  without raising (numpy yields \<^verbatim>\<open>nan\<close> or \<^verbatim>\<open>inf\<close>: a negative base
  under a fractional exponent, a division by zero inside an array expression), the model
  stops with the outcome \<open>NonFinite\<close>. The other constructors of \<open>error\<close> are
  Python exceptions.
\<close>

datatype error = KeyError | TypeError | ValueError | LibraryError | NonFinite

definition bnd :: "error + 'a \<Rightarrow> ('a \<Rightarrow> error + 'b) \<Rightarrow> error + 'b" where
  "bnd m k = (case m of Inl e \<Rightarrow> Inl e | Inr x \<Rightarrow> k x)"

fun map_res :: "('a \<Rightarrow> error + 'b) \<Rightarrow> 'a list \<Rightarrow> error + 'b list" where
  "map_res g [] = Inr []"
| "map_res g (x # xs) = bnd (g x) (\<lambda>y. bnd (map_res g xs) (\<lambda>ys. Inr (y # ys)))"

text \<open>Calendar dates (time of day is not modelled; pandas' Timestamp range is not either).\<close>

datatype date = Date (year: int) (month: nat) (day: nat)

definition leap_year :: "int \<Rightarrow> bool" where
  "leap_year y = (y mod 4 = 0 \<and> (y mod 100 \<noteq> 0 \<or> y mod 400 = 0))"

definition days_in_month :: "int \<Rightarrow> nat \<Rightarrow> nat" where
  "days_in_month y m =
     (if m = 2 then (if leap_year y then 29 else 28)
      else if m = 4 \<or> m = 6 \<or> m = 9 \<or> m = 11 then 30 else 31)"

definition valid_date :: "date \<Rightarrow> bool" where
  "valid_date d = (1 \<le> month d \<and> month d \<le> 12 \<and> 1 \<le> day d \<and> day d \<le> days_in_month (year d) (month d))"

definition date_less :: "date \<Rightarrow> date \<Rightarrow> bool" where
  "date_less a b =
     (year a < year b \<or> (year a = year b \<and> (month a < month b \<or> (month a = month b \<and> day a < day b))))"

text \<open>Values a dictionary of assumptions can hold: \<^verbatim>\<open>None\<close>, a number
  (\<^verbatim>\<open>int\<close>, \<^verbatim>\<open>float\<close>), a string, a date object.\<close>

datatype pyval = PNone | PNum real | PStr string | PDate date

text \<open>A float result of a library solver, which may be infinite or \<^verbatim>\<open>nan\<close>.\<close>

datatype fl = Fin real | PosInf | NegInf | NaN

text \<open>A Python \<^verbatim>\<open>dict\<close>, in insertion order.\<close>

type_synonym pydict = "(string \<times> pyval) list"

text \<open>
  What the source takes from outside the repository and this development does not define:
  the parser behind \<^verbatim>\<open>float(str)\<close>, the conversions of \<^verbatim>\<open>pd.Timestamp\<close> from
  strings and numbers (\<open>None\<close> is \<^verbatim>\<open>NaT\<close>), the three solvers
  \<^verbatim>\<open>xirr.xirr\<close>, \<^verbatim>\<open>scipy.optimize.brentq\<close> and \<^verbatim>\<open>npf.irr\<close>, each of which may
  raise, and \<^verbatim>\<open>round(x, n)\<close> on a float. The last one rounds the binary value of a
  double, so which neighbour it returns near a tie is not a function of the exact real
  this development computes with: no rounding rule is fixed here. They are parameters of
  the model.
\<close>

record libs =
  str_to_float :: "string \<Rightarrow> real option"
  timestamp_of :: "pyval \<Rightarrow> error + date option"
  xirr_xirr :: "(date \<times> real) list \<Rightarrow> error + fl option"
  brentq :: "(real \<Rightarrow> real) \<Rightarrow> real \<Rightarrow> real \<Rightarrow> error + real"
  npf_irr :: "real list \<Rightarrow> error + fl"
  py_round :: "real \<Rightarrow> nat \<Rightarrow> real"

definition truthy :: "pyval \<Rightarrow> bool" where
  "truthy v = (case v of PNone \<Rightarrow> False | PNum x \<Rightarrow> x \<noteq> 0 | PStr s \<Rightarrow> s \<noteq> [] | PDate d \<Rightarrow> True)"

definition py_float :: "libs \<Rightarrow> pyval \<Rightarrow> error + real" where
  "py_float L v =
     (case v of
        PNone \<Rightarrow> Inl TypeError
      | PNum x \<Rightarrow> Inr x
      | PStr s \<Rightarrow> (case str_to_float L s of None \<Rightarrow> Inl ValueError | Some x \<Rightarrow> Inr x)
      | PDate d \<Rightarrow> Inl TypeError)"

text \<open>\<^verbatim>\<open>int(x)\<close> of a float truncates towards zero.\<close>

definition py_int :: "real \<Rightarrow> int" where
  "py_int x = (if 0 \<le> x then \<lfloor>x\<rfloor> else \<lceil>x\<rceil>)"

text \<open>\<^verbatim>\<open>a.get(k, default)\<close>; \<^verbatim>\<open>a.get(k)\<close> is \<open>dget a k PNone\<close>.\<close>

definition dget :: "pydict \<Rightarrow> string \<Rightarrow> pyval \<Rightarrow> pyval" where
  "dget a k dflt = (case map_of a k of None \<Rightarrow> dflt | Some v \<Rightarrow> v)"

definition pd_Timestamp :: "libs \<Rightarrow> pyval \<Rightarrow> error + date option" where
  "pd_Timestamp L v =
     (case v of PNone \<Rightarrow> Inr None | PDate d \<Rightarrow> Inr (Some d) | _ \<Rightarrow> timestamp_of L v)"

text \<open>\<^verbatim>\<open>d + relativedelta(months=1)\<close>: the next month, the day clipped to its length.\<close>

definition plus_one_month :: "date \<Rightarrow> date" where
  "plus_one_month d =
     (let y = (if month d \<ge> 12 then year d + 1 else year d);
          m = (if month d \<ge> 12 then 1 else month d + 1)
      in Date y m (min (days_in_month y m) (day d)))"

text \<open>
  \<^verbatim>\<open>pd.date_range(start, periods=n, freq="M")\<close>: \<open>n\<close> month ends, the first one the
  end of the month of \<open>start\<close> (a start that is not a month end rolls forward to it).
  A number of periods below one gives the empty index.
\<close>

fun month_ends :: "int \<Rightarrow> nat \<Rightarrow> nat \<Rightarrow> date list" where
  "month_ends y m 0 = []"
| "month_ends y m (Suc n) =
     Date y m (days_in_month y m) #
       (if m \<ge> 12 then month_ends (y + 1) 1 n else month_ends y (m + 1) n)"

definition pd_date_range :: "date \<Rightarrow> int \<Rightarrow> date list" where
  "pd_date_range start periods = month_ends (year start) (month start) (nat periods)"

text \<open>
  numpy's float power \<^verbatim>\<open>x ** y\<close>: 1 at exponent 0, the real power for a positive
  base, 0 for base 0 and a positive exponent, the integer power for a negative base and an
  integral exponent; \<^verbatim>\<open>nan\<close> or \<^verbatim>\<open>inf\<close> otherwise.
\<close>

definition np_power :: "real \<Rightarrow> real \<Rightarrow> error + real" where
  "np_power x y =
     (if y = 0 then Inr 1
      else if 0 < x then Inr (x powr y)
      else if x = 0 then (if 0 < y then Inr 0 else Inl NonFinite)
      else if y = of_int \<lfloor>y\<rfloor> then Inr (x powi \<lfloor>y\<rfloor>)
      else Inl NonFinite)"

section \<open>Amortization\<close>

text \<open>
  Modelled from the spec: \<^verbatim>\<open>numpy_financial\<close> (\<^verbatim>\<open>npf.ipmt\<close>, \<^verbatim>\<open>npf.ppmt\<close>) is a
  package outside \<^verbatim>\<open>src/\<close>; section 4.1 of the specification gives the closed forms:
  the level payment is \<open>- loan * rate / (1 - (1 + rate)^(- nper))\<close> (\<open>- loan / nper\<close> at
  rate 0), the balance before month \<open>m\<close> is
  \<open>loan * (1 + rate)^(m - 1) + level * ((1 + rate)^(m - 1) - 1) / rate\<close>, the interest
  payment is the rate times the balance, negated, and the principal payment is the level
  payment minus the interest payment.
\<close>

definition level_payment :: "real \<Rightarrow> int \<Rightarrow> real \<Rightarrow> error + real" where
  "level_payment rate nper loan =
     (if rate = 0 then (if nper = 0 then Inl NonFinite else Inr (- loan / of_int nper))
      else bnd (np_power (1 + rate) (- of_int nper)) (\<lambda>q.
             if 1 - q = 0 then Inl NonFinite else Inr (- loan * rate / (1 - q))))"

text \<open>Modelled from the spec: \<^verbatim>\<open>npf.ipmt(rate, per, nper, pv)\<close>, the interest payment of
  month \<open>per\<close>: the rate times the balance before that month, negated (0 at rate 0).\<close>

definition npf_ipmt :: "real \<Rightarrow> int \<Rightarrow> real \<Rightarrow> int \<Rightarrow> error + real" where
  "npf_ipmt rate nper loan per =
     bnd (level_payment rate nper loan) (\<lambda>level.
       if rate = 0 then Inr 0
       else bnd (np_power (1 + rate) (of_int (per - 1))) (\<lambda>g.
              Inr (- (rate * (loan * g + level * (g - 1) / rate)))))"

text \<open>Modelled from the spec: \<^verbatim>\<open>npf.ppmt(rate, per, nper, pv)\<close>, the principal payment of
  month \<open>per\<close>: the level payment minus the interest payment.\<close>

definition npf_ppmt :: "real \<Rightarrow> int \<Rightarrow> real \<Rightarrow> int \<Rightarrow> error + real" where
  "npf_ppmt rate nper loan per =
     bnd (level_payment rate nper loan) (\<lambda>level.
       bnd (npf_ipmt rate nper loan per) (\<lambda>i. Inr (level - i)))"

section \<open>The proforma engine\<close>

text \<open>\<^verbatim>\<open>def f(x): return float(x or 0)\<close>\<close>

definition f :: "libs \<Rightarrow> pyval \<Rightarrow> error + real" where
  "f L x = (if truthy x then py_float L x else Inr 0)"

text \<open>The local variables of \<^verbatim>\<open>build_proforma\<close> after its lines 49 to 71.\<close>

record assumptions =
  date_of_close :: "date option"
  hold_years :: int
  purchase_price :: real
  closing_costs :: real
  rent_base :: real
  vacancy :: real
  other_income :: real
  expense_base :: real
  capex_initial :: real
  rent_growth :: real
  expense_growth :: real
  capex_growth :: real
  appreciation :: real
  exit_cap :: real
  cost_of_sale :: real
  ltv :: real
  interest_rate :: real
  amort_years :: int

definition read_assumptions :: "libs \<Rightarrow> pydict \<Rightarrow> error + assumptions" where
  "read_assumptions L a =
     bnd (pd_Timestamp L (dget a ''date_of_close'' PNone)) (\<lambda>doc.
     bnd (f L (dget a ''hold_period_years'' (PNum 10))) (\<lambda>hy.
     bnd (f L (dget a ''purchase_price'' PNone)) (\<lambda>pp.
     bnd (f L (dget a ''closing_costs'' (PNum 0.02))) (\<lambda>cc.
     bnd (f L (dget a ''rent_immediately_after_purchase'' PNone)) (\<lambda>rb.
     bnd (f L (dget a ''vacancy_immediately_after_purchase'' (PNum 0.05))) (\<lambda>vac.
     bnd (f L (dget a ''other_income_immediately_after_purchase'' (PNum 0))) (\<lambda>oi.
     bnd (f L (dget a ''operating_expenses_after_purchase'' PNone)) (\<lambda>eb.
     bnd (f L (dget a ''capital_expense_after_purchase'' PNone)) (\<lambda>cx.
     bnd (f L (dget a ''expected_rent_growth'' (PNum 0.04))) (\<lambda>rg.
     bnd (f L (dget a ''expected_expense_growth'' (PNum 0.025))) (\<lambda>eg.
     bnd (f L (dget a ''expected_capex_growth'' (PNum 0.02))) (\<lambda>cg.
     bnd (f L (dget a ''expected_appreciation'' (PNum 0.054))) (\<lambda>ap.
     bnd (f L (dget a ''exit_cap_rate_expectation'' (PNum 0.055))) (\<lambda>ec.
     bnd (f L (dget a ''cost_of_sale_percentage'' (PNum 0.05))) (\<lambda>cs.
     bnd (f L (dget a ''ltv'' (PNum 0.7))) (\<lambda>lv.
     bnd (f L (dget a ''interest_rate'' (PNum 0.045))) (\<lambda>ir.
     bnd (f L (dget a ''amortization_years'' (PNum 30))) (\<lambda>ay.
       Inr \<lparr> date_of_close = doc, hold_years = py_int hy, purchase_price = pp,
             closing_costs = pp * cc, rent_base = rb, vacancy = vac, other_income = oi,
             expense_base = eb, capex_initial = cx, rent_growth = rg, expense_growth = eg,
             capex_growth = cg, appreciation = ap, exit_cap = ec, cost_of_sale = cs,
             ltv = lv, interest_rate = ir, amort_years = py_int ay \<rparr>))))))))))))))))))"

text \<open>The monthly frame \<^verbatim>\<open>df\<close>, column by column, and the equity frame \<^verbatim>\<open>eq\<close>.\<close>

record monthly_cf =
  idx :: "date list"
  MonthNum :: "int list"
  YearsFrac :: "real list"
  GrossPotentialRent :: "real list"
  VacancyLoss :: "real list"
  OtherIncome :: "real list"
  NetRentalRevenue :: "real list"
  OperatingExpenses :: "real list"
  NetOperatingIncome :: "real list"
  CapitalExpenses :: "real list"
  CashFlowBeforeDebtService :: "real list"
  InterestPayment :: "real list"
  PrincipalPayment :: "real list"
  CashFlowAfterDebtService :: "real list"

record equity_cf =
  eq_index :: "date list"
  UnleveredCashFlow :: "real list"
  LeveredCashFlow :: "real list"

definition vadd :: "real list \<Rightarrow> real list \<Rightarrow> real list" where
  "vadd xs ys = map2 (+) xs ys"

text \<open>
  \<^verbatim>\<open>eq.loc[labels, col] = values\<close> on a frame whose index has no duplicate: the row of
  each label takes the value at the label's position.
\<close>

definition loc_set :: "date list \<Rightarrow> real list \<Rightarrow> date list \<Rightarrow> real list \<Rightarrow> real list" where
  "loc_set index col labels vals =
     map (\<lambda>(d, c). case map_of (zip labels vals) d of None \<Rightarrow> c | Some v \<Rightarrow> v) (zip index col)"

text \<open>\<^verbatim>\<open>s.iloc[-12:]\<close> and \<^verbatim>\<open>s.iloc[0:12]\<close>\<close>

definition last12 :: "real list \<Rightarrow> real list" where
  "last12 xs = drop (length xs - 12) xs"

definition first12 :: "real list \<Rightarrow> real list" where
  "first12 xs = take 12 xs"

definition sale_price_of :: "assumptions \<Rightarrow> real \<Rightarrow> real" where
  "sale_price_of A f12_noi = (if exit_cap A \<noteq> 0 then f12_noi / exit_cap A else 0)"

definition loan_payoff_of :: "real \<Rightarrow> real list \<Rightarrow> real" where
  "loan_payoff_of loan_amount pps = max (loan_amount - (- sum_list pps)) 0"

text \<open>
  \<^verbatim>\<open>build_proforma\<close> in two parts: \<open>read_assumptions\<close> above is its lines 49 to 71,
  \<open>build_frames\<close> its lines 73 to 119. A date of close that is \<^verbatim>\<open>NaT\<close> makes line 77
  raise.
\<close>

definition build_frames :: "assumptions \<Rightarrow> error + (monthly_cf \<times> equity_cf)" where
  "build_frames A =
     (let hold_months = hold_years A * 12;
          loan_amount = purchase_price A * ltv A;
          monthly_rate = interest_rate A / 12;
          nper = amort_years A * 12
      in case date_of_close A of
           None \<Rightarrow> Inl ValueError
         | Some doc \<Rightarrow>
      (let ix = pd_date_range (plus_one_month doc) hold_months;
           mn = map int [1 ..< length ix + 1];
           yf = map (\<lambda>m. (of_int m - 1) / 12) mn
       in
       bnd (map_res (np_power (1 + rent_growth A)) yf) (\<lambda>rent_curve.
       bnd (map_res (np_power (1 + expense_growth A)) yf) (\<lambda>expense_curve.
       bnd (map_res (np_power (1 + capex_growth A)) yf) (\<lambda>capex_curve.
       bnd (if loan_amount > 0
            then bnd (map_res (npf_ipmt monthly_rate nper loan_amount) mn) (\<lambda>ip.
                 bnd (map_res (npf_ppmt monthly_rate nper loan_amount) mn) (\<lambda>pp.
                 Inr (ip, pp)))
            else Inr (map (\<lambda>m. 0) mn, map (\<lambda>m. 0) mn)) (\<lambda>(ip, pp).
       (let gpr = map (\<lambda>p. rent_base A * p) rent_curve;
            vl = map (\<lambda>g. - g * vacancy A) gpr;
            oi = map (\<lambda>p. other_income A * p) rent_curve;
            nrr = vadd (vadd gpr vl) oi;
            opx = map (\<lambda>p. - expense_base A * p) expense_curve;
            noi = vadd nrr opx;
            cpx = map (\<lambda>p. - capex_initial A * p) capex_curve;
            cfb = vadd noi cpx;
            cfa = vadd (vadd cfb ip) pp;
            df = \<lparr> idx = ix, MonthNum = mn, YearsFrac = yf, GrossPotentialRent = gpr,
                   VacancyLoss = vl, OtherIncome = oi, NetRentalRevenue = nrr,
                   OperatingExpenses = opx, NetOperatingIncome = noi, CapitalExpenses = cpx,
                   CashFlowBeforeDebtService = cfb, InterestPayment = ip,
                   PrincipalPayment = pp, CashFlowAfterDebtService = cfa \<rparr>;
            f12_noi = sum_list (last12 noi);
            sale_price = sale_price_of A f12_noi;
            sale_cost = sale_price * cost_of_sale A;
            loan_payoff = loan_payoff_of loan_amount pp;
            ei = doc # ix;
            u0 = (map (\<lambda>d. 0) ei)[0 := - purchase_price A - closing_costs A];
            l0 = (map (\<lambda>d. 0) ei)[0 := - purchase_price A - closing_costs A + loan_amount];
            u1 = loc_set ei u0 ix cfb;
            l1 = loc_set ei l0 ix cfa;
            k = length ei - 1;
            u2 = u1[k := u1 ! k + (sale_price - sale_cost)];
            l2 = l1[k := l1 ! k + (sale_price - sale_cost - loan_payoff)]
        in Inr (df, \<lparr> eq_index = ei, UnleveredCashFlow = u2, LeveredCashFlow = l2 \<rparr>))))))))"

definition build_proforma :: "libs \<Rightarrow> pydict \<Rightarrow> error + (monthly_cf \<times> equity_cf)" where
  "build_proforma L a = bnd (read_assumptions L a) build_frames"

section \<open>The return metrics engine\<close>

text \<open>\<^verbatim>\<open>a[k]\<close> raises \<^verbatim>\<open>KeyError\<close> on a missing key.\<close>

definition dsub :: "pydict \<Rightarrow> string \<Rightarrow> error + pyval" where
  "dsub a k = (case map_of a k of None \<Rightarrow> Inl KeyError | Some v \<Rightarrow> Inr v)"

text \<open>
  An operand of float arithmetic: in the dictionary the metric functions receive, every
  number is a float; \<^verbatim>\<open>None\<close>, a string or a date there raises \<^verbatim>\<open>TypeError\<close>.
\<close>

definition num_operand :: "pyval \<Rightarrow> error + real" where
  "num_operand v = (case v of PNum x \<Rightarrow> Inr x | _ \<Rightarrow> Inl TypeError)"

definition py_mul :: "pyval \<Rightarrow> pyval \<Rightarrow> error + real" where
  "py_mul u v = bnd (num_operand u) (\<lambda>x. bnd (num_operand v) (\<lambda>y. Inr (x * y)))"

definition going_in_cap_rate :: "monthly_cf \<Rightarrow> pydict \<Rightarrow> error + real option" where
  "going_in_cap_rate df a =
     (let noi = sum_list (first12 (NetOperatingIncome df))
      in if truthy (dget a ''purchase_price'' PNone)
         then bnd (dsub a ''purchase_price'') (\<lambda>p. bnd (num_operand p) (\<lambda>x. Inr (Some (noi / x))))
         else Inr None)"

definition loan_constant :: "pydict \<Rightarrow> monthly_cf \<Rightarrow> error + real option" where
  "loan_constant a df =
     bnd (dsub a ''purchase_price'') (\<lambda>p.
     bnd (dsub a ''ltv'') (\<lambda>l.
     bnd (py_mul p l) (\<lambda>loan_amount.
       (let total_debt_service =
              sum_list (first12 (PrincipalPayment df)) + sum_list (first12 (InterestPayment df))
        in Inr (if loan_amount \<noteq> 0 then Some (total_debt_service / loan_amount) else None)))))"

definition going_in_dscr :: "pydict \<Rightarrow> monthly_cf \<Rightarrow> error + real option" where
  "going_in_dscr a df =
     (let noi = sum_list (first12 (NetOperatingIncome df));
          total_debt_service =
              sum_list (first12 (PrincipalPayment df)) + sum_list (first12 (InterestPayment df))
      in Inr (if total_debt_service \<noteq> 0 then Some (noi / total_debt_service) else None))"

definition going_in_debt_yield :: "pydict \<Rightarrow> monthly_cf \<Rightarrow> error + real option" where
  "going_in_debt_yield a df =
     bnd (dsub a ''purchase_price'') (\<lambda>p.
     bnd (dsub a ''ltv'') (\<lambda>l.
     bnd (py_mul p l) (\<lambda>loan_amount.
       (let noi = sum_list (first12 (NetOperatingIncome df))
        in Inr (if loan_amount \<noteq> 0 then Some (noi / loan_amount) else None)))))"

definition exit_ltv :: "libs \<Rightarrow> pydict \<Rightarrow> equity_cf \<Rightarrow> error + real option" where
  "exit_ltv L a eq =
     bnd (py_float L (dget a ''purchase_price'' (PNum 0))) (\<lambda>purchase_price.
     bnd (py_float L (dget a ''ltv'' (PNum 0))) (\<lambda>ltv.
     bnd (py_float L (dget a ''exit_cap_rate_expectation'' (PNum 0.055))) (\<lambda>exit_cap.
       if exit_cap > 0
       then (let estimated_sale_price = purchase_price * 1.1;
                 loan_payoff = purchase_price * ltv * 0.8
             in Inr (if estimated_sale_price > 0 then Some (loan_payoff / estimated_sale_price)
                     else None))
       else Inr None)))"

subsection \<open>The IRR solver\<close>

text \<open>Assignment \<^verbatim>\<open>d[k] = v\<close>: an existing key keeps its place.\<close>

fun dict_set :: "('k \<times> 'v) list \<Rightarrow> 'k \<Rightarrow> 'v \<Rightarrow> ('k \<times> 'v) list" where
  "dict_set [] k v = [(k, v)]"
| "dict_set ((k', v') # r) k v = (if k' = k then (k, v) # r else (k', v') # dict_set r k v)"

text \<open>The proleptic Gregorian day number of a date, for differences in days.\<close>

definition days_before_year :: "int \<Rightarrow> int" where
  "days_before_year y = 365 * (y - 1) + (y - 1) div 4 - (y - 1) div 100 + (y - 1) div 400"

definition days_before_month :: "int \<Rightarrow> nat \<Rightarrow> nat" where
  "days_before_month y m = sum_list (map (days_in_month y) [1 ..< m])"

definition ordinal :: "date \<Rightarrow> int" where
  "ordinal d = days_before_year (year d) + int (days_before_month (year d) (month d)) + int (day d)"

text \<open>\<^verbatim>\<open>sorted(cashflows.items(), key=lambda kv: kv[0])\<close>, a stable sort by date.\<close>

fun insort_date :: "date \<times> real \<Rightarrow> (date \<times> real) list \<Rightarrow> (date \<times> real) list" where
  "insort_date x [] = [x]"
| "insort_date x (y # ys) =
     (if date_less (fst y) (fst x) then y # insort_date x ys else x # y # ys)"

definition sorted_items :: "(date \<times> real) list \<Rightarrow> (date \<times> real) list" where
  "sorted_items kvs = foldr insort_date kvs []"

text \<open>\<^verbatim>\<open>np.linspace(-0.95, 3.0, 200)[i]\<close>\<close>

definition grid :: "nat \<Rightarrow> real" where
  "grid i = - 0.95 + real i * ((3.0 - (- 0.95)) / 199)"

text \<open>The loop over the grid: the first bracket with a sign change on which
  \<^verbatim>\<open>brentq\<close> does not raise gives the result.\<close>

fun scan_grid :: "libs \<Rightarrow> (real \<Rightarrow> real) \<Rightarrow> nat list \<Rightarrow> real option" where
  "scan_grid L npv [] = None"
| "scan_grid L npv (i # rest) =
     (if npv (grid i) * npv (grid (i + 1)) < 0
      then (case brentq L npv (grid i) (grid (i + 1)) of
              Inr r \<Rightarrow> Some r
            | Inl e \<Rightarrow> scan_grid L npv rest)
      else scan_grid L npv rest)"

text \<open>The rates the loop hands to \<open>npv\<close> lie in \<open>[-0.95, 3]\<close>, where \<open>1 + r\<close> is positive.\<close>

definition xirr_fallback :: "libs \<Rightarrow> (date \<times> real) list \<Rightarrow> error + real option" where
  "xirr_fallback L cashflows =
     (if cashflows = [] \<or> length cashflows < 2 then Inr None
      else
        (let items = sorted_items cashflows;
             t0 = fst (hd items);
             ts = map (\<lambda>(d, v). real_of_int (ordinal d - ordinal t0) / 365) items;
             cfs = map snd items
         in if \<not> ((\<exists>c \<in> set cfs. c > 0) \<and> (\<exists>c \<in> set cfs. c < 0)) then Inr None
            else
              (let npv = (\<lambda>r. sum_list (map2 (\<lambda>c t. c / (1 + r) powr t) cfs ts))
               in Inr (scan_grid L npv [0 ..< 199]))))"

definition fl_truthy :: "fl \<Rightarrow> bool" where
  "fl_truthy x = (case x of Fin r \<Rightarrow> r \<noteq> 0 | _ \<Rightarrow> True)"

text \<open>\<^verbatim>\<open>(1 + irr_m) ** 12 - 1\<close>\<close>

definition annualize :: "fl \<Rightarrow> fl" where
  "annualize x = (case x of Fin r \<Rightarrow> Fin ((1 + r) ^ 12 - 1) | PosInf \<Rightarrow> PosInf | NegInf \<Rightarrow> PosInf | NaN \<Rightarrow> NaN)"

text \<open>\<^verbatim>\<open>try: ... except Exception: ...\<close> around library calls.\<close>

definition try_except :: "error + 'a \<Rightarrow> (error \<Rightarrow> error + 'a) \<Rightarrow> error + 'a" where
  "try_except body handler = (case body of Inr x \<Rightarrow> Inr x | Inl e \<Rightarrow> handler e)"

text \<open>The dictionary comprehension of \<^verbatim>\<open>_calc_xirr\<close>: the nonzero entries, keyed by date.\<close>

definition nonzero_by_date :: "(date \<times> real) list \<Rightarrow> (date \<times> real) list" where
  "nonzero_by_date series = foldl (\<lambda>d (t, v). dict_set d t v) [] (filter (\<lambda>(t, v). v \<noteq> 0) series)"

definition calc_xirr :: "libs \<Rightarrow> (date \<times> real) list \<Rightarrow> error + fl option" where
  "calc_xirr L series =
     (let lib = nonzero_by_date series
      in try_except (xirr_xirr L lib) (\<lambda>e.
           bnd (xirr_fallback L lib) (\<lambda>fb.
             case fb of
               Some r \<Rightarrow> Inr (Some (Fin r))
             | None \<Rightarrow>
                 try_except
                   (bnd (npf_irr L (map snd series)) (\<lambda>irr_m.
                      Inr (if fl_truthy irr_m then Some (annualize irr_m) else None)))
                   (\<lambda>e. Inr None))))"

definition unlevered_irr :: "libs \<Rightarrow> equity_cf \<Rightarrow> error + fl option" where
  "unlevered_irr L eq = calc_xirr L (zip (eq_index eq) (UnleveredCashFlow eq))"

definition levered_irr :: "libs \<Rightarrow> equity_cf \<Rightarrow> error + fl option" where
  "levered_irr L eq = calc_xirr L (zip (eq_index eq) (LeveredCashFlow eq))"

subsection \<open>Multiples and cash-on-cash\<close>

definition equity_multiple :: "real list \<Rightarrow> real option" where
  "equity_multiple flows =
     (let total_invested = sum_list (filter (\<lambda>x. x < 0) flows);
          total_returned = sum_list (filter (\<lambda>x. x > 0) flows)
      in if total_invested \<noteq> 0 then Some (total_returned / \<bar>total_invested\<bar>) else None)"

definition unlevered_equity_multiple :: "equity_cf \<Rightarrow> error + real option" where
  "unlevered_equity_multiple eq = Inr (equity_multiple (UnleveredCashFlow eq))"

definition levered_equity_multiple :: "equity_cf \<Rightarrow> error + real option" where
  "levered_equity_multiple eq = Inr (equity_multiple (LeveredCashFlow eq))"

text \<open>In both averages the quotient is formed before the guard is read; numpy division
  by zero does not raise.\<close>

definition avg_unlevered_coc :: "monthly_cf \<Rightarrow> pydict \<Rightarrow> error + real option" where
  "avg_unlevered_coc df a =
     bnd (dsub a ''purchase_price'') (\<lambda>purchase_price.
     bnd (dsub a ''hold_period_years'') (\<lambda>h.
     bnd (py_mul h (PNum 12)) (\<lambda>hold_months.
     bnd (py_mul purchase_price (PNum hold_months)) (\<lambda>den.
       if truthy purchase_price
       then (if den = 0 then Inl NonFinite
             else Inr (Some (sum_list (CashFlowBeforeDebtService df) / den)))
       else Inr None))))"

definition avg_levered_coc :: "monthly_cf \<Rightarrow> pydict \<Rightarrow> error + real option" where
  "avg_levered_coc df a =
     bnd (dsub a ''purchase_price'') (\<lambda>purchase_price.
     bnd (dsub a ''ltv'') (\<lambda>l.
     bnd (py_mul purchase_price l) (\<lambda>loan_amount.
     bnd (dsub a ''hold_period_years'') (\<lambda>h.
     bnd (py_mul h (PNum 12)) (\<lambda>hold_months.
     bnd (num_operand purchase_price) (\<lambda>pp.
     bnd (py_mul (dget a ''closing_costs'' (PNum 0)) purchase_price) (\<lambda>cc.
       (let equity_invested = pp - loan_amount + cc;
            den = equity_invested * hold_months
        in if equity_invested \<noteq> 0
           then (if den = 0 then Inl NonFinite
                 else Inr (Some (sum_list (CashFlowAfterDebtService df) / den)))
           else Inr None))))))))"

definition year1_op_ex_ratio :: "monthly_cf \<Rightarrow> error + real option" where
  "year1_op_ex_ratio df =
     (let op_ex = \<bar>sum_list (first12 (OperatingExpenses df))\<bar>;
          egr = sum_list (first12 (GrossPotentialRent df))
      in Inr (if egr \<noteq> 0 then Some (op_ex / egr) else None))"

subsection \<open>The main engine function\<close>

text \<open>The closing loop of \<^verbatim>\<open>generate_return_metrics\<close>: every float metric is
  replaced by \<^verbatim>\<open>round(v, 6)\<close>; \<^verbatim>\<open>None\<close> stays, and so do infinities and
  \<^verbatim>\<open>nan\<close>.\<close>

definition round6 :: "libs \<Rightarrow> real option \<Rightarrow> real option" where
  "round6 L v = map_option (\<lambda>x. py_round L x 6) v"

definition round6_fl :: "libs \<Rightarrow> fl option \<Rightarrow> fl option" where
  "round6_fl L v = map_option (\<lambda>x. case x of Fin r \<Rightarrow> Fin (py_round L r 6) | _ \<Rightarrow> x) v"

record metrics =
  m_going_in_cap_rate :: "real option"
  m_loan_constant :: "real option"
  m_going_in_dscr :: "real option"
  m_going_in_debt_yield :: "real option"
  m_exit_ltv :: "real option"
  m_unlevered_irr :: "fl option"
  m_levered_irr :: "fl option"
  m_unlevered_equity_multiple :: "real option"
  m_levered_equity_multiple :: "real option"
  m_avg_unlevered_coc :: "real option"
  m_avg_levered_coc :: "real option"
  m_year1_op_ex_ratio :: "real option"
  m_projected_sale_price :: "real option"
  m_net_sale_proceeds :: "real option"

definition safe_float :: "libs \<Rightarrow> pyval \<Rightarrow> real" where
  "safe_float L val =
     (case val of
        PNone \<Rightarrow> 0
      | _ \<Rightarrow> (case py_float L val of Inr x \<Rightarrow> x | Inl e \<Rightarrow> 0))"

definition text_keys :: "string list" where
  "text_keys = [''date_of_close'', ''acquisition_date'', ''name'', ''address'', ''city'',
     ''state'', ''zip'', ''property_type'', ''ownership_type'', ''portfolio_name'', ''notes'']"

definition is_int_float_str :: "pyval \<Rightarrow> bool" where
  "is_int_float_str v = (case v of PNum x \<Rightarrow> True | PStr s \<Rightarrow> True | _ \<Rightarrow> False)"

text \<open>
  The store: the dictionaries that exist, by address. \<^verbatim>\<open>data.copy()\<close> allocates a new
  dictionary at the next address; \<^verbatim>\<open>data_clean[key] = ...\<close> writes to the store at the
  address of \<^verbatim>\<open>data_clean\<close>.
\<close>

type_synonym store = "pydict list"

definition dict_copy :: "store \<Rightarrow> nat \<Rightarrow> nat \<times> store" where
  "dict_copy S addr = (length S, S @ [S ! addr])"

definition store_set :: "store \<Rightarrow> nat \<Rightarrow> string \<Rightarrow> pyval \<Rightarrow> store" where
  "store_set S addr k v = S[addr := dict_set (S ! addr) k v]"

text \<open>The cleaning loop over \<^verbatim>\<open>data_clean.items()\<close>; each step writes only the value of
  the key it is at.\<close>

fun clean_loop :: "libs \<Rightarrow> store \<Rightarrow> nat \<Rightarrow> (string \<times> pyval) list \<Rightarrow> store" where
  "clean_loop L S dc [] = S"
| "clean_loop L S dc ((key, val) # rest) =
     clean_loop L
       (if is_int_float_str val \<and> key \<notin> set text_keys
        then store_set S dc key (PNum (safe_float L val)) else S)
       dc rest"

text \<open>
  \<^verbatim>\<open>generate_return_metrics\<close> in two parts: the copy and the cleaning loop (its lines
  188 to 194) act on the store; \<open>compute_metrics\<close> is the rest (lines 196 to 245), which
  only reads the cleaned copy. The metrics are computed in the order of the source, so the
  first exception is the one raised.
\<close>

definition compute_metrics :: "libs \<Rightarrow> pydict \<Rightarrow> error + metrics" where
  "compute_metrics L data_clean =
     bnd (build_proforma L data_clean) (\<lambda>(monthly_cf, equity_cf).
     bnd (going_in_cap_rate monthly_cf data_clean) (\<lambda>m1.
     bnd (loan_constant data_clean monthly_cf) (\<lambda>m2.
     bnd (going_in_dscr data_clean monthly_cf) (\<lambda>m3.
     bnd (going_in_debt_yield data_clean monthly_cf) (\<lambda>m4.
     bnd (exit_ltv L data_clean equity_cf) (\<lambda>m5.
     bnd (unlevered_irr L equity_cf) (\<lambda>m6.
     bnd (levered_irr L equity_cf) (\<lambda>m7.
     bnd (unlevered_equity_multiple equity_cf) (\<lambda>m8.
     bnd (levered_equity_multiple equity_cf) (\<lambda>m9.
     bnd (avg_unlevered_coc monthly_cf data_clean) (\<lambda>m10.
     bnd (avg_levered_coc monthly_cf data_clean) (\<lambda>m11.
     bnd (year1_op_ex_ratio monthly_cf) (\<lambda>m12.
       (let final_unlevered = last (UnleveredCashFlow equity_cf);
            final_levered = last (LeveredCashFlow equity_cf)
        in
        bnd (py_float L (dget data_clean ''purchase_price'' (PNum 0))) (\<lambda>purchase_price.
        bnd (py_float L (dget data_clean ''cost_of_sale_percentage'' (PNum 0.05))) (\<lambda>cost_of_sale_pct.
          (let estimated_sale_price = purchase_price * 1.2;
               cost_of_sale = estimated_sale_price * cost_of_sale_pct;
               loan_payoff = final_unlevered - final_levered;
               net_sale_proceeds = final_levered
           in Inr \<lparr> m_going_in_cap_rate = round6 L m1, m_loan_constant = round6 L m2,
                     m_going_in_dscr = round6 L m3, m_going_in_debt_yield = round6 L m4,
                     m_exit_ltv = round6 L m5, m_unlevered_irr = round6_fl L m6,
                     m_levered_irr = round6_fl L m7,
                     m_unlevered_equity_multiple = round6 L m8,
                     m_levered_equity_multiple = round6 L m9,
                     m_avg_unlevered_coc = round6 L m10, m_avg_levered_coc = round6 L m11,
                     m_year1_op_ex_ratio = round6 L m12,
                     m_projected_sale_price =
                       round6 L (Some (py_round L estimated_sale_price 2)),
                     m_net_sale_proceeds =
                       round6 L (Some (py_round L net_sale_proceeds 2)) \<rparr>)))))))))))))))))"

definition generate_return_metrics :: "libs \<Rightarrow> store \<Rightarrow> nat \<Rightarrow> (error + metrics) \<times> store" where
  "generate_return_metrics L S data =
     (let (data_clean, S1) = dict_copy S data;
          S2 = clean_loop L S1 data_clean (S1 ! data_clean)
      in (compute_metrics L (S2 ! data_clean), S2))"

section \<open>Quantities the properties are stated with\<close>

text \<open>The terminal waterfall of \<^verbatim>\<open>build_proforma\<close> (its lines 104 to 107), as functions
  of the assumptions and the monthly frame.\<close>

definition trailing_noi :: "monthly_cf \<Rightarrow> real" where
  "trailing_noi df =
     sum_list (drop (length (NetOperatingIncome df) - min 12 (length (NetOperatingIncome df)))
                 (NetOperatingIncome df))"

definition terminal_sale_price :: "assumptions \<Rightarrow> monthly_cf \<Rightarrow> real" where
  "terminal_sale_price A df = (if exit_cap A \<noteq> 0 then trailing_noi df / exit_cap A else 0)"

definition terminal_sale_cost :: "assumptions \<Rightarrow> monthly_cf \<Rightarrow> real" where
  "terminal_sale_cost A df = terminal_sale_price A df * cost_of_sale A"

definition cumulative_principal_paid :: "monthly_cf \<Rightarrow> real" where
  "cumulative_principal_paid df = - sum_list (PrincipalPayment df)"

definition terminal_loan_payoff :: "assumptions \<Rightarrow> monthly_cf \<Rightarrow> real" where
  "terminal_loan_payoff A df = max (purchase_price A * ltv A - cumulative_principal_paid df) 0"

definition terminal_net_proceeds :: "assumptions \<Rightarrow> monthly_cf \<Rightarrow> real" where
  "terminal_net_proceeds A df =
     terminal_sale_price A df - terminal_sale_cost A df - terminal_loan_payoff A df"

definition waterfall_of :: "assumptions \<Rightarrow> monthly_cf \<times> equity_cf \<Rightarrow> error + real \<times> real" where
  "waterfall_of A r = Inr (terminal_sale_price A (fst r), terminal_net_proceeds A (fst r))"

definition frames_waterfall :: "assumptions \<Rightarrow> error + real \<times> real" where
  "frames_waterfall A = bnd (build_frames A) (waterfall_of A)"

definition proforma_waterfall :: "libs \<Rightarrow> pydict \<Rightarrow> error + real \<times> real" where
  "proforma_waterfall L a = bnd (read_assumptions L a) frames_waterfall"

text \<open>The numeric keys \<^verbatim>\<open>build_proforma\<close> reads, each with the value it takes when the
  key is absent (its lines 50 to 71).\<close>

definition proforma_defaults :: "(string \<times> real) list" where
  "proforma_defaults =
     [(''hold_period_years'', 10), (''purchase_price'', 0), (''closing_costs'', 0.02),
      (''rent_immediately_after_purchase'', 0), (''vacancy_immediately_after_purchase'', 0.05),
      (''other_income_immediately_after_purchase'', 0), (''operating_expenses_after_purchase'', 0),
      (''capital_expense_after_purchase'', 0), (''expected_rent_growth'', 0.04),
      (''expected_expense_growth'', 0.025), (''expected_capex_growth'', 0.02),
      (''expected_appreciation'', 0.054), (''exit_cap_rate_expectation'', 0.055),
      (''cost_of_sale_percentage'', 0.05), (''ltv'', 0.7), (''interest_rate'', 0.045),
      (''amortization_years'', 30)]"

text \<open>
  An AssumptionSet of the specification's data model, as far as the engines' arithmetic
  depends on it: a hold of at least one year, growth rates above \<open>-1\<close>, and, where
  there is a loan, a non-negative interest rate and an amortization term of at least one
  year.
\<close>

definition assumption_set :: "assumptions \<Rightarrow> bool" where
  "assumption_set A =
     (1 \<le> hold_years A \<and> - 1 < rent_growth A \<and> - 1 < expense_growth A
      \<and> - 1 < capex_growth A
      \<and> (purchase_price A * ltv A \<le> 0 \<or> (0 \<le> interest_rate A \<and> 1 \<le> amort_years A)))"

text \<open>A series the solver cannot root-find on: fewer than two nonzero entries, or no
  positive entry, or no negative entry.\<close>

definition degenerate :: "(date \<times> real) list \<Rightarrow> bool" where
  "degenerate series =
     (length (filter (\<lambda>(t, v). v \<noteq> 0) series) < 2
      \<or> list_all (\<lambda>(t, v). v \<le> 0) series \<or> list_all (\<lambda>(t, v). v \<ge> 0) series)"

section \<open>Library environments and inputs for evaluation\<close>

text \<open>
  In \<open>failing_libs\<close> every solver and parser fails. In \<open>sample_libs\<close> the date-aware
  solver answers on an empty and on a one-signed dictionary as a release of the
  \<^verbatim>\<open>xirr\<close> package with the function \<^verbatim>\<open>xirr.xirr\<close> does (\<^verbatim>\<open>None\<close>; plus or
  minus infinity) and fails elsewhere. In \<open>nan_irr_libs\<close> the date-aware solver fails
  (as when the package has no such function) and \<^verbatim>\<open>npf.irr\<close> returns \<^verbatim>\<open>nan\<close>, its
  answer for a series without a root. In all three, rounding is to the nearest multiple of
  \<open>10^(-n)\<close>, a tie to the even one; they are evaluated on whole numbers only, which every
  rounding returns unchanged.
\<close>

definition round_half_even :: "real \<Rightarrow> int" where
  "round_half_even x =
     (let fl = \<lfloor>x\<rfloor>; d = x - of_int fl
      in if d < 1 / 2 then fl else if d > 1 / 2 then fl + 1 else if even fl then fl else fl + 1)"

definition round_nearest_even :: "real \<Rightarrow> nat \<Rightarrow> real" where
  "round_nearest_even x n = of_int (round_half_even (x * 10 ^ n)) / 10 ^ n"

definition no_float :: "string \<Rightarrow> real option" where
  "no_float s = None"

definition no_timestamp :: "pyval \<Rightarrow> error + date option" where
  "no_timestamp v = Inl ValueError"

definition no_xirr :: "(date \<times> real) list \<Rightarrow> error + fl option" where
  "no_xirr d = Inl LibraryError"

definition no_brentq :: "(real \<Rightarrow> real) \<Rightarrow> real \<Rightarrow> real \<Rightarrow> error + real" where
  "no_brentq g lo hi = Inl LibraryError"

definition no_irr :: "real list \<Rightarrow> error + fl" where
  "no_irr vs = Inl LibraryError"

definition nan_irr :: "real list \<Rightarrow> error + fl" where
  "nan_irr vs = Inr NaN"

definition failing_libs :: libs where
  "failing_libs = \<lparr> str_to_float = no_float, timestamp_of = no_timestamp, xirr_xirr = no_xirr,
                     brentq = no_brentq, npf_irr = no_irr, py_round = round_nearest_even \<rparr>"

definition nan_irr_libs :: libs where
  "nan_irr_libs = \<lparr> str_to_float = no_float, timestamp_of = no_timestamp, xirr_xirr = no_xirr,
                     brentq = no_brentq, npf_irr = nan_irr, py_round = round_nearest_even \<rparr>"

definition xirr_package :: "(date \<times> real) list \<Rightarrow> error + fl option" where
  "xirr_package d =
     (if d = [] then Inr None
      else if list_all (\<lambda>(t, v). v \<ge> 0) d then Inr (Some PosInf)
      else if list_all (\<lambda>(t, v). v \<le> 0) d then Inr (Some NegInf)
      else Inl LibraryError)"

definition sample_libs :: libs where
  "sample_libs = \<lparr> str_to_float = no_float, timestamp_of = no_timestamp, xirr_xirr = xirr_package,
                    brentq = no_brentq, npf_irr = no_irr, py_round = round_nearest_even \<rparr>"

text \<open>A one-year hold without a loan: rent 100 a month, nothing else, exit cap rate 10\%.\<close>

definition unlevered_input :: pydict where
  "unlevered_input =
     [(''date_of_close'', PDate (Date 2020 1 1)), (''hold_period_years'', PNum 1),
      (''purchase_price'', PNum 1000), (''closing_costs'', PNum 0),
      (''rent_immediately_after_purchase'', PNum 100),
      (''vacancy_immediately_after_purchase'', PNum 0),
      (''expected_rent_growth'', PNum 0), (''expected_expense_growth'', PNum 0),
      (''expected_capex_growth'', PNum 0), (''exit_cap_rate_expectation'', PNum 0.1),
      (''cost_of_sale_percentage'', PNum 0), (''ltv'', PNum 0)]"

definition unlevered_assumptions :: assumptions where
  "unlevered_assumptions =
     \<lparr> date_of_close = Some (Date 2020 1 1), hold_years = 1, purchase_price = 1000,
       closing_costs = 0, rent_base = 100, vacancy = 0, other_income = 0, expense_base = 0,
       capex_initial = 0, rent_growth = 0, expense_growth = 0, capex_growth = 0,
       appreciation = 0.054, exit_cap = 0.1, cost_of_sale = 0, ltv = 0,
       interest_rate = 0.045, amort_years = 30 \<rparr>"

text \<open>A hold period of zero years without a loan, everything else left to the defaults.\<close>

definition zero_hold_input :: pydict where
  "zero_hold_input =
     [(''date_of_close'', PDate (Date 2020 1 1)), (''hold_period_years'', PNum 0),
      (''purchase_price'', PNum 1000), (''ltv'', PNum 0)]"

definition empty_monthly :: monthly_cf where
  "empty_monthly =
     \<lparr> idx = [], MonthNum = [], YearsFrac = [], GrossPotentialRent = [], VacancyLoss = [],
       OtherIncome = [], NetRentalRevenue = [], OperatingExpenses = [], NetOperatingIncome = [],
       CapitalExpenses = [], CashFlowBeforeDebtService = [], InterestPayment = [],
       PrincipalPayment = [], CashFlowAfterDebtService = [] \<rparr>"

text \<open>A record without \<^verbatim>\<open>ltv\<close> and without \<^verbatim>\<open>closing_costs\<close>.\<close>

definition sparse_input :: pydict where
  "sparse_input =
     [(''date_of_close'', PDate (Date 2020 1 1)), (''hold_period_years'', PNum 1),
      (''purchase_price'', PNum 1000), (''rent_immediately_after_purchase'', PNum 100)]"

text \<open>Two inflows and no outflow.\<close>

definition inflows_only :: "(date \<times> real) list" where
  "inflows_only = [(Date 2020 1 1, 100), (Date 2021 1 1, 50)]"

text \<open>The same hold with a loan of 70\% of the price.\<close>

definition levered_assumptions :: assumptions where
  "levered_assumptions = unlevered_assumptions \<lparr> ltv := 0.7 \<rparr>"

definition sparse_assumptions :: "real \<Rightarrow> assumptions" where
  "sparse_assumptions closing_fraction =
     \<lparr> date_of_close = Some (Date 2020 1 1), hold_years = 1, purchase_price = 1000,
       closing_costs = 1000 * closing_fraction, rent_base = 100, vacancy = 0.05, other_income = 0,
       expense_base = 0, capex_initial = 0, rent_growth = 0.04, expense_growth = 0.025,
       capex_growth = 0.02, appreciation = 0.054, exit_cap = 0.055, cost_of_sale = 0.05,
       ltv = 0.7, interest_rate = 0.045, amort_years = 30 \<rparr>"

section \<open>Basic facts\<close>

lemma bnd_Inr_iff: "bnd m k = Inr r \<longleftrightarrow> (\<exists>x. m = Inr x \<and> k x = Inr r)"
  by (cases m) (simp_all add: bnd_def)

lemma bnd_Inr [simp]: "bnd (Inr x) k = k x"
  by (simp add: bnd_def)

lemma bnd_Inl [simp]: "bnd (Inl e) k = Inl e"
  by (simp add: bnd_def)

lemma map_res_Inr:
  "map_res g xs = Inr ys \<Longrightarrow> length ys = length xs \<and> (\<forall>i<length xs. g (xs ! i) = Inr (ys ! i))"
proof (induction xs arbitrary: ys)
  case Nil
  then show ?case by simp
next
  case (Cons x xs)
  from Cons.prems obtain y zs where y: "g x = Inr y" and zs: "map_res g xs = Inr zs"
    and ys: "ys = y # zs"
    by (auto simp: bnd_Inr_iff)
  from Cons.IH[OF zs] show ?case
    using y ys by (auto simp: nth_Cons split: nat.splits)
qed

lemma map_res_total:
  "(\<And>x. x \<in> set xs \<Longrightarrow> g x = Inr (h x)) \<Longrightarrow> map_res g xs = Inr (map h xs)"
  by (induction xs) simp_all

subsection \<open>Dates\<close>

lemma length_month_ends: "length (month_ends y m n) = n"
  by (induction n arbitrary: y m) auto

lemma length_pd_date_range: "length (pd_date_range s p) = nat p"
  by (simp add: pd_date_range_def length_month_ends)

lemma month_ends_from:
  "d \<in> set (month_ends y m n) \<Longrightarrow> y < year d \<or> (y = year d \<and> m \<le> month d)"
proof (induction n arbitrary: y m)
  case 0
  then show ?case by simp
next
  case (Suc n)
  then show ?case by (fastforce split: if_splits)
qed

lemma sorted_month_ends: "sorted_wrt date_less (month_ends y m n)"
proof (induction n arbitrary: y m)
  case 0
  then show ?case by simp
next
  case (Suc n)
  have "date_less (Date y m (days_in_month y m)) d"
    if "d \<in> set (if m \<ge> 12 then month_ends (y + 1) 1 n else month_ends y (m + 1) n)" for d
    using that month_ends_from[of d "y + 1" 1 n] month_ends_from[of d y "m + 1" n]
    by (auto simp: date_less_def split: if_splits)
  with Suc.IH show ?case by (simp split: if_splits)
qed

lemma date_less_irrefl: "\<not> date_less d d"
  by (simp add: date_less_def)

lemma sorted_wrt_date_less_distinct: "sorted_wrt date_less ds \<Longrightarrow> distinct ds"
  by (induction ds) (auto simp: date_less_irrefl)

lemma close_before_range:
  "d \<in> set (pd_date_range (plus_one_month doc) p) \<Longrightarrow> date_less doc d"
  using month_ends_from[of d "year (plus_one_month doc)" "month (plus_one_month doc)" "nat p"]
  by (auto simp: pd_date_range_def plus_one_month_def Let_def date_less_def split: if_splits)

lemma sorted_equity_index:
  "sorted_wrt date_less (doc # pd_date_range (plus_one_month doc) p)"
  using close_before_range[of _ doc p] by (simp add: pd_date_range_def sorted_month_ends)

subsection \<open>Label-based assignment\<close>

lemma loc_set_all:
  assumes "distinct labels" "length vals = length labels" "length col = length labels"
  shows "loc_set labels col labels vals = vals"
proof (rule nth_equalityI)
  show "length (loc_set labels col labels vals) = length vals"
    using assms by (simp add: loc_set_def)
next
  fix i assume "i < length (loc_set labels col labels vals)"
  then have i: "i < length labels" using assms by (simp add: loc_set_def)
  have "map_of (zip labels vals) (labels ! i) = Some (vals ! i)"
    using assms i by (simp add: map_of_zip_nth)
  then show "loc_set labels col labels vals ! i = vals ! i"
    using assms i by (simp add: loc_set_def)
qed

lemma loc_set_Cons:
  assumes "d \<notin> set labels" "distinct labels" "length vals = length labels"
    "length col = length labels"
  shows "loc_set (d # labels) (c # col) labels vals = c # vals"
proof -
  have "map_of (zip labels vals) d = None"
    using assms by simp
  moreover have "loc_set labels col labels vals = vals"
    using assms by (intro loc_set_all) auto
  ultimately show ?thesis by (simp add: loc_set_def)
qed

subsection \<open>What a successful run of the proforma engine returns\<close>


lemma build_frames_monthly:
  assumes "build_frames A = Inr (df, eq)"
  obtains doc rc ec cc where
    "date_of_close A = Some doc"
    "idx df = pd_date_range (plus_one_month doc) (hold_years A * 12)"
    "MonthNum df = map int [1 ..< length (idx df) + 1]"
    "YearsFrac df = map (\<lambda>m. (of_int m - 1) / 12) (MonthNum df)"
    "map_res (np_power (1 + rent_growth A)) (YearsFrac df) = Inr rc"
    "map_res (np_power (1 + expense_growth A)) (YearsFrac df) = Inr ec"
    "map_res (np_power (1 + capex_growth A)) (YearsFrac df) = Inr cc"
    "if purchase_price A * ltv A > 0
     then map_res (npf_ipmt (interest_rate A / 12) (amort_years A * 12) (purchase_price A * ltv A)) (MonthNum df) = Inr (InterestPayment df)
        \<and> map_res (npf_ppmt (interest_rate A / 12) (amort_years A * 12) (purchase_price A * ltv A)) (MonthNum df) = Inr (PrincipalPayment df)
     else InterestPayment df = map (\<lambda>m. 0) (MonthNum df) \<and> PrincipalPayment df = map (\<lambda>m. 0) (MonthNum df)"
    "GrossPotentialRent df = map (\<lambda>p. rent_base A * p) rc"
    "VacancyLoss df = map (\<lambda>g. - g * vacancy A) (GrossPotentialRent df)"
    "OtherIncome df = map (\<lambda>p. other_income A * p) rc"
    "NetRentalRevenue df = vadd (vadd (GrossPotentialRent df) (VacancyLoss df)) (OtherIncome df)"
    "OperatingExpenses df = map (\<lambda>p. - expense_base A * p) ec"
    "NetOperatingIncome df = vadd (NetRentalRevenue df) (OperatingExpenses df)"
    "CapitalExpenses df = map (\<lambda>p. - capex_initial A * p) cc"
    "CashFlowBeforeDebtService df = vadd (NetOperatingIncome df) (CapitalExpenses df)"
    "CashFlowAfterDebtService df = vadd (vadd (CashFlowBeforeDebtService df) (InterestPayment df)) (PrincipalPayment df)"
    "eq_index eq = doc # idx df"
    "UnleveredCashFlow eq =
       (let u1 = loc_set (doc # idx df)
                   ((map (\<lambda>d. 0) (doc # idx df))[0 := - purchase_price A - closing_costs A])
                   (idx df) (CashFlowBeforeDebtService df);
            k = length (doc # idx df) - 1;
            sp = sale_price_of A (sum_list (last12 (NetOperatingIncome df)))
        in u1[k := u1 ! k + (sp - sp * cost_of_sale A)])"
    "LeveredCashFlow eq =
       (let l1 = loc_set (doc # idx df)
                   ((map (\<lambda>d. 0) (doc # idx df))[0 := - purchase_price A - closing_costs A + purchase_price A * ltv A])
                   (idx df) (CashFlowAfterDebtService df);
            k = length (doc # idx df) - 1;
            sp = sale_price_of A (sum_list (last12 (NetOperatingIncome df)))
        in l1[k := l1 ! k + (sp - sp * cost_of_sale A
                               - loan_payoff_of (purchase_price A * ltv A) (PrincipalPayment df))])"
  using assms unfolding build_frames_def Let_def
  by (auto simp: bnd_Inr_iff split: option.splits prod.splits if_splits)


lemma frames_lengths:
  assumes "build_frames A = Inr (df, eq)"
  shows "length (idx df) = nat (hold_years A * 12)"
    and "length (MonthNum df) = length (idx df)"
    and "length (YearsFrac df) = length (idx df)"
    and "length (GrossPotentialRent df) = length (idx df)"
    and "length (VacancyLoss df) = length (idx df)"
    and "length (OtherIncome df) = length (idx df)"
    and "length (NetRentalRevenue df) = length (idx df)"
    and "length (OperatingExpenses df) = length (idx df)"
    and "length (NetOperatingIncome df) = length (idx df)"
    and "length (CapitalExpenses df) = length (idx df)"
    and "length (CashFlowBeforeDebtService df) = length (idx df)"
    and "length (InterestPayment df) = length (idx df)"
    and "length (PrincipalPayment df) = length (idx df)"
    and "length (CashFlowAfterDebtService df) = length (idx df)"
proof -
  from assms obtain doc rc ec cc where u:
    "idx df = pd_date_range (plus_one_month doc) (hold_years A * 12)"
    "MonthNum df = map int [1 ..< length (idx df) + 1]"
    "YearsFrac df = map (\<lambda>m. (of_int m - 1) / 12) (MonthNum df)"
    "map_res (np_power (1 + rent_growth A)) (YearsFrac df) = Inr rc"
    "map_res (np_power (1 + expense_growth A)) (YearsFrac df) = Inr ec"
    "map_res (np_power (1 + capex_growth A)) (YearsFrac df) = Inr cc"
    "if purchase_price A * ltv A > 0
     then map_res (npf_ipmt (interest_rate A / 12) (amort_years A * 12) (purchase_price A * ltv A)) (MonthNum df) = Inr (InterestPayment df)
        \<and> map_res (npf_ppmt (interest_rate A / 12) (amort_years A * 12) (purchase_price A * ltv A)) (MonthNum df) = Inr (PrincipalPayment df)
     else InterestPayment df = map (\<lambda>m. 0) (MonthNum df) \<and> PrincipalPayment df = map (\<lambda>m. 0) (MonthNum df)"
    "GrossPotentialRent df = map (\<lambda>p. rent_base A * p) rc"
    "VacancyLoss df = map (\<lambda>g. - g * vacancy A) (GrossPotentialRent df)"
    "OtherIncome df = map (\<lambda>p. other_income A * p) rc"
    "NetRentalRevenue df = vadd (vadd (GrossPotentialRent df) (VacancyLoss df)) (OtherIncome df)"
    "OperatingExpenses df = map (\<lambda>p. - expense_base A * p) ec"
    "NetOperatingIncome df = vadd (NetRentalRevenue df) (OperatingExpenses df)"
    "CapitalExpenses df = map (\<lambda>p. - capex_initial A * p) cc"
    "CashFlowBeforeDebtService df = vadd (NetOperatingIncome df) (CapitalExpenses df)"
    "CashFlowAfterDebtService df = vadd (vadd (CashFlowBeforeDebtService df) (InterestPayment df)) (PrincipalPayment df)"
    by (rule build_frames_monthly)
  show n: "length (idx df) = nat (hold_years A * 12)"
    by (simp add: u(1) length_pd_date_range)
  show mn: "length (MonthNum df) = length (idx df)"
    by (subst u(2)) (simp only: length_map length_upt add_diff_cancel_right')
  show yf: "length (YearsFrac df) = length (idx df)"
    by (simp add: u(3) mn)
  have rc: "length rc = length (idx df)" and ec: "length ec = length (idx df)"
    and cc: "length cc = length (idx df)"
    using map_res_Inr[OF u(4)] map_res_Inr[OF u(5)] map_res_Inr[OF u(6)] yf by simp_all
  show ip: "length (InterestPayment df) = length (idx df)"
    using u(7) mn map_res_Inr[of _ "MonthNum df" "InterestPayment df"]
    by (auto split: if_splits)
  show pp: "length (PrincipalPayment df) = length (idx df)"
    using u(7) mn map_res_Inr[of _ "MonthNum df" "PrincipalPayment df"]
    by (auto split: if_splits)
  show gpr: "length (GrossPotentialRent df) = length (idx df)" by (simp add: u(8) rc)
  show vl: "length (VacancyLoss df) = length (idx df)" by (simp add: u(9) gpr)
  show oi: "length (OtherIncome df) = length (idx df)" by (simp add: u(10) rc)
  show nrr: "length (NetRentalRevenue df) = length (idx df)"
    by (simp add: u(11) vadd_def gpr vl oi)
  show opx: "length (OperatingExpenses df) = length (idx df)" by (simp add: u(12) ec)
  show noi: "length (NetOperatingIncome df) = length (idx df)"
    by (simp add: u(13) vadd_def nrr opx)
  show cpx: "length (CapitalExpenses df) = length (idx df)" by (simp add: u(14) cc)
  show cfb: "length (CashFlowBeforeDebtService df) = length (idx df)"
    by (simp add: u(15) vadd_def noi cpx)
  show "length (CashFlowAfterDebtService df) = length (idx df)"
    by (simp add: u(16) vadd_def cfb ip pp)
qed

lemma equity_columns:
  assumes "build_frames A = Inr (df, eq)"
  obtains doc where
    "date_of_close A = Some doc"
    "idx df = pd_date_range (plus_one_month doc) (hold_years A * 12)"
    "eq_index eq = doc # idx df"
    "UnleveredCashFlow eq =
       ((- purchase_price A - closing_costs A) # CashFlowBeforeDebtService df)
         [length (idx df) :=
            ((- purchase_price A - closing_costs A) # CashFlowBeforeDebtService df) ! length (idx df)
            + (sale_price_of A (sum_list (last12 (NetOperatingIncome df)))
               - sale_price_of A (sum_list (last12 (NetOperatingIncome df))) * cost_of_sale A)]"
    "LeveredCashFlow eq =
       ((- purchase_price A - closing_costs A + purchase_price A * ltv A) # CashFlowAfterDebtService df)
         [length (idx df) :=
            ((- purchase_price A - closing_costs A + purchase_price A * ltv A) # CashFlowAfterDebtService df) ! length (idx df)
            + (sale_price_of A (sum_list (last12 (NetOperatingIncome df)))
               - sale_price_of A (sum_list (last12 (NetOperatingIncome df))) * cost_of_sale A
               - loan_payoff_of (purchase_price A * ltv A) (PrincipalPayment df))]"
proof -
  from assms obtain doc where u:
    "date_of_close A = Some doc"
    "idx df = pd_date_range (plus_one_month doc) (hold_years A * 12)"
    "eq_index eq = doc # idx df"
    "UnleveredCashFlow eq =
       (let u1 = loc_set (doc # idx df)
                   ((map (\<lambda>d. 0) (doc # idx df))[0 := - purchase_price A - closing_costs A])
                   (idx df) (CashFlowBeforeDebtService df);
            k = length (doc # idx df) - 1;
            sp = sale_price_of A (sum_list (last12 (NetOperatingIncome df)))
        in u1[k := u1 ! k + (sp - sp * cost_of_sale A)])"
    "LeveredCashFlow eq =
       (let l1 = loc_set (doc # idx df)
                   ((map (\<lambda>d. 0) (doc # idx df))[0 := - purchase_price A - closing_costs A + purchase_price A * ltv A])
                   (idx df) (CashFlowAfterDebtService df);
            k = length (doc # idx df) - 1;
            sp = sale_price_of A (sum_list (last12 (NetOperatingIncome df)))
        in l1[k := l1 ! k + (sp - sp * cost_of_sale A
                               - loan_payoff_of (purchase_price A * ltv A) (PrincipalPayment df))])"
    by (rule build_frames_monthly)
  have srt: "sorted_wrt date_less (doc # idx df)"
    unfolding u(2) by (rule sorted_equity_index)
  then have dis: "distinct (idx df)" and nin: "doc \<notin> set (idx df)"
    using sorted_wrt_date_less_distinct[OF srt] by simp_all
  have l1: "loc_set (doc # idx df) ((map (\<lambda>d. 0) (doc # idx df))[0 := c]) (idx df) vals = c # vals"
    if "length vals = length (idx df)" for c vals
    using loc_set_Cons[OF nin dis that, of "map (\<lambda>d. 0) (idx df)" c] by simp
  have "UnleveredCashFlow eq = ((- purchase_price A - closing_costs A) # CashFlowBeforeDebtService df)
         [length (idx df) :=
            ((- purchase_price A - closing_costs A) # CashFlowBeforeDebtService df) ! length (idx df)
            + (sale_price_of A (sum_list (last12 (NetOperatingIncome df)))
               - sale_price_of A (sum_list (last12 (NetOperatingIncome df))) * cost_of_sale A)]"
    unfolding u(4) Let_def l1[OF frames_lengths(11)[OF assms]]
    by (simp only: length_Cons diff_Suc_1)
  moreover have "LeveredCashFlow eq =
       ((- purchase_price A - closing_costs A + purchase_price A * ltv A) # CashFlowAfterDebtService df)
         [length (idx df) :=
            ((- purchase_price A - closing_costs A + purchase_price A * ltv A) # CashFlowAfterDebtService df) ! length (idx df)
            + (sale_price_of A (sum_list (last12 (NetOperatingIncome df)))
               - sale_price_of A (sum_list (last12 (NetOperatingIncome df))) * cost_of_sale A
               - loan_payoff_of (purchase_price A * ltv A) (PrincipalPayment df))]"
    unfolding u(5) Let_def l1[OF frames_lengths(14)[OF assms]]
    by (simp only: length_Cons diff_Suc_1)
  ultimately show ?thesis using that u(1,2,3) by blast
qed

subsection \<open>When the proforma engine succeeds\<close>

lemma read_unlevered_input: "read_assumptions L unlevered_input = Inr unlevered_assumptions"
  by (simp add: read_assumptions_def unlevered_input_def unlevered_assumptions_def dget_def
      f_def truthy_def py_float_def pd_Timestamp_def py_int_def)

lemma map_res_exists:
  "(\<And>x. x \<in> set xs \<Longrightarrow> \<exists>y. g x = Inr y) \<Longrightarrow> \<exists>ys. map_res g xs = Inr ys"
proof (induction xs)
  case Nil
  then show ?case by simp
next
  case (Cons x xs)
  have "\<exists>y. g x = Inr y" by (rule Cons.prems) simp
  moreover have "\<exists>ys. map_res g xs = Inr ys" by (rule Cons.IH) (simp add: Cons.prems)
  ultimately show ?case by auto
qed

lemma level_payment_pos:
  assumes "0 < rate" "1 \<le> nper"
  shows "level_payment rate nper loan = Inr (- loan * rate / (1 - (1 + rate) powr (- of_int nper)))"
proof -
  have "(1 + rate) powr (- of_int nper) < 1"
    using assms by (intro powr_less_one) simp_all
  then show ?thesis
    using assms by (simp add: level_payment_def np_power_def)
qed

lemma level_payment_zero:
  "nper \<noteq> 0 \<Longrightarrow> level_payment 0 nper loan = Inr (- loan / of_int nper)"
  by (simp add: level_payment_def)

lemma level_payment_succeeds:
  assumes "0 \<le> rate" "1 \<le> nper"
  shows "\<exists>level. level_payment rate nper loan = Inr level"
proof (cases "rate = 0")
  case True
  then show ?thesis using assms(2) by (simp add: level_payment_zero)
next
  case False
  then show ?thesis using assms by (simp add: level_payment_pos)
qed

lemma np_power_base_pos: "0 < x \<Longrightarrow> np_power x y = Inr (x powr y)"
  by (simp add: np_power_def)

lemma npf_ipmt_succeeds:
  assumes "0 \<le> rate" "1 \<le> nper"
  shows "\<exists>i. npf_ipmt rate nper loan per = Inr i"
proof -
  obtain level where "level_payment rate nper loan = Inr level"
    using level_payment_succeeds[OF assms] by blast
  then show ?thesis
    using assms(1) by (simp add: npf_ipmt_def np_power_base_pos)
qed

lemma npf_ppmt_succeeds:
  assumes "0 \<le> rate" "1 \<le> nper"
  shows "\<exists>p. npf_ppmt rate nper loan per = Inr p"
proof -
  obtain level where "level_payment rate nper loan = Inr level"
    using level_payment_succeeds[OF assms] by blast
  moreover obtain i where "npf_ipmt rate nper loan per = Inr i"
    using npf_ipmt_succeeds[OF assms] by blast
  ultimately show ?thesis by (simp add: npf_ppmt_def)
qed

lemma build_frames_succeeds:
  assumes "date_of_close A = Some doc"
    and "- 1 < rent_growth A" and "- 1 < expense_growth A" and "- 1 < capex_growth A"
    and "purchase_price A * ltv A \<le> 0 \<or> (0 \<le> interest_rate A \<and> 1 \<le> amort_years A)"
  shows "\<exists>r. build_frames A = Inr r"
proof -
  have pw: "\<exists>ys. map_res (np_power (1 + g)) xs = Inr ys" if "- 1 < g" for g xs
    using that by (intro map_res_exists) (simp add: np_power_def)
  have pay: "\<exists>ys. map_res (npf_ipmt (interest_rate A / 12) (amort_years A * 12) loan) xs = Inr ys"
       "\<exists>ys. map_res (npf_ppmt (interest_rate A / 12) (amort_years A * 12) loan) xs = Inr ys"
    if "0 \<le> interest_rate A \<and> 1 \<le> amort_years A" for loan xs
    using that by (auto intro!: map_res_exists npf_ipmt_succeeds npf_ppmt_succeeds)
  obtain rc ec cc where c:
    "map_res (np_power (1 + rent_growth A))
       (map (\<lambda>m. (of_int m - 1) / 12) (map int [1 ..< length (pd_date_range (plus_one_month doc) (hold_years A * 12)) + 1])) = Inr rc"
    "map_res (np_power (1 + expense_growth A))
       (map (\<lambda>m. (of_int m - 1) / 12) (map int [1 ..< length (pd_date_range (plus_one_month doc) (hold_years A * 12)) + 1])) = Inr ec"
    "map_res (np_power (1 + capex_growth A))
       (map (\<lambda>m. (of_int m - 1) / 12) (map int [1 ..< length (pd_date_range (plus_one_month doc) (hold_years A * 12)) + 1])) = Inr cc"
    using pw[OF assms(2)] pw[OF assms(3)] pw[OF assms(4)] by meson
  show ?thesis
  proof (cases "purchase_price A * ltv A > 0")
    case False
    then show ?thesis
      unfolding build_frames_def Let_def using assms(1) c by simp
  next
    case True
    then have ok: "0 \<le> interest_rate A \<and> 1 \<le> amort_years A" using assms(5) by simp
    obtain ip pp where
      "map_res (npf_ipmt (interest_rate A / 12) (amort_years A * 12) (purchase_price A * ltv A))
         (map int [1 ..< length (pd_date_range (plus_one_month doc) (hold_years A * 12)) + 1]) = Inr ip"
      "map_res (npf_ppmt (interest_rate A / 12) (amort_years A * 12) (purchase_price A * ltv A))
         (map int [1 ..< length (pd_date_range (plus_one_month doc) (hold_years A * 12)) + 1]) = Inr pp"
      using pay[OF ok] by meson
    then show ?thesis
      unfolding build_frames_def Let_def using assms(1) c True by simp
  qed
qed

lemma unlevered_frames:
  "build_proforma L unlevered_input = Inr (projr (build_proforma L unlevered_input))"
proof -
  have "\<exists>r. build_frames unlevered_assumptions = Inr r"
    by (rule build_frames_succeeds[where doc = "Date 2020 1 1"])
       (simp_all add: unlevered_assumptions_def)
  then show ?thesis
    by (auto simp: build_proforma_def read_unlevered_input)
qed

section \<open>The monthly schedule\<close>


lemma vadd_nth: "i < length xs \<Longrightarrow> i < length ys \<Longrightarrow> vadd xs ys ! i = xs ! i + ys ! i"
  by (simp add: vadd_def)

lemma vadd_zeros: "length xs = n \<Longrightarrow> vadd xs (replicate n 0) = xs"
  by (rule nth_equalityI) (simp_all add: vadd_def)

lemma years_frac_nth:
  assumes "build_frames A = Inr (df, eq)" "i < length (idx df)"
  shows "YearsFrac df ! i = real i / 12" and "MonthNum df ! i = int i + 1"
proof -
  from assms(1) obtain doc where u:
    "MonthNum df = map int [1 ..< length (idx df) + 1]"
    "YearsFrac df = map (\<lambda>m. (of_int m - 1) / 12) (MonthNum df)"
    "date_of_close A = Some doc"
    by (rule build_frames_monthly)
  have mn: "MonthNum df ! i = int (1 + i)"
    using assms(2) by (subst u(1)) (simp only: nth_map length_upt nth_upt add_diff_cancel_right')
  then show "MonthNum df ! i = int i + 1" by simp
  have "i < length (MonthNum df)" using assms frames_lengths(2)[OF assms(1)] by simp
  then have "YearsFrac df ! i = (of_int (MonthNum df ! i) - 1) / 12"
    by (subst u(2)) simp
  then show "YearsFrac df ! i = real i / 12" using mn by simp
qed

lemma growth_columns_nth:
  assumes "build_frames A = Inr (df, eq)" "i < length (idx df)"
    "- 1 < rent_growth A" "- 1 < expense_growth A"
  shows "GrossPotentialRent df ! i = rent_base A * (1 + rent_growth A) powr (real i / 12)"
    and "OtherIncome df ! i = other_income A * (1 + rent_growth A) powr (real i / 12)"
    and "OperatingExpenses df ! i = - expense_base A * (1 + expense_growth A) powr (real i / 12)"
proof -
  from assms(1) obtain doc rc ec cc where u:
    "map_res (np_power (1 + rent_growth A)) (YearsFrac df) = Inr rc"
    "map_res (np_power (1 + expense_growth A)) (YearsFrac df) = Inr ec"
    "GrossPotentialRent df = map (\<lambda>p. rent_base A * p) rc"
    "OtherIncome df = map (\<lambda>p. other_income A * p) rc"
    "OperatingExpenses df = map (\<lambda>p. - expense_base A * p) ec"
    "date_of_close A = Some doc" "map_res (np_power (1 + capex_growth A)) (YearsFrac df) = Inr cc"
    by (rule build_frames_monthly)
  have i: "i < length (YearsFrac df)"
    using assms(2) frames_lengths(3)[OF assms(1)] by simp
  have rc: "length rc = length (YearsFrac df)"
    and rci: "np_power (1 + rent_growth A) (YearsFrac df ! i) = Inr (rc ! i)"
    using map_res_Inr[OF u(1)] i by simp_all
  have ec: "length ec = length (YearsFrac df)"
    and eci: "np_power (1 + expense_growth A) (YearsFrac df ! i) = Inr (ec ! i)"
    using map_res_Inr[OF u(2)] i by simp_all
  have yf: "YearsFrac df ! i = real i / 12"
    by (rule years_frac_nth[OF assms(1,2)])
  have "rc ! i = (1 + rent_growth A) powr (real i / 12)"
    using rci assms(3) by (simp add: np_power_base_pos yf)
  moreover have "ec ! i = (1 + expense_growth A) powr (real i / 12)"
    using eci assms(4) by (simp add: np_power_base_pos yf)
  ultimately show "GrossPotentialRent df ! i = rent_base A * (1 + rent_growth A) powr (real i / 12)"
    and "OtherIncome df ! i = other_income A * (1 + rent_growth A) powr (real i / 12)"
    and "OperatingExpenses df ! i = - expense_base A * (1 + expense_growth A) powr (real i / 12)"
    using i rc ec by (simp_all add: u(3,4,5))
qed

lemma noi_nth:
  assumes "build_frames A = Inr (df, eq)" "i < length (idx df)"
  shows "VacancyLoss df ! i = - GrossPotentialRent df ! i * vacancy A"
    and "NetOperatingIncome df ! i =
           GrossPotentialRent df ! i + VacancyLoss df ! i + OtherIncome df ! i
             + OperatingExpenses df ! i"
proof -
  from assms(1) obtain doc where u:
    "VacancyLoss df = map (\<lambda>g. - g * vacancy A) (GrossPotentialRent df)"
    "NetRentalRevenue df = vadd (vadd (GrossPotentialRent df) (VacancyLoss df)) (OtherIncome df)"
    "NetOperatingIncome df = vadd (NetRentalRevenue df) (OperatingExpenses df)"
    "date_of_close A = Some doc"
    by (rule build_frames_monthly)
  note len = frames_lengths[OF assms(1)]
  show "VacancyLoss df ! i = - GrossPotentialRent df ! i * vacancy A"
    using assms(2) len(4) by (subst u(1)) simp
  have "NetRentalRevenue df ! i = GrossPotentialRent df ! i + VacancyLoss df ! i + OtherIncome df ! i"
    using assms(2) len by (subst u(2)) (simp add: vadd_nth vadd_def)
  then show "NetOperatingIncome df ! i =
           GrossPotentialRent df ! i + VacancyLoss df ! i + OtherIncome df ! i
             + OperatingExpenses df ! i"
    using assms(2) len by (subst u(3)) (simp add: vadd_nth)
qed

text \<open>
  C3. In a successful run, for every month \<open>t\<close> from 1 to \<open>hold_months\<close> and with
  \<open>y = (t - 1) / 12\<close>: gross potential rent is \<open>rent_base * (1 + rent_growth)^y\<close>,
  other income is \<open>other_income_base * (1 + rent_growth)^y\<close> (the rent curve),
  operating expenses are \<open>- expense_base * (1 + expense_growth)^y\<close>, vacancy loss is
  \<open>- gross_potential_rent * vacancy\<close>, and NOI is the sum of the four. The powers are
  real powers; the growth rates are above \<open>-1\<close>, where they are defined.
\<close>

theorem monthly_rows_follow_growth_curves:
  assumes "read_assumptions L a = Inr A" and "build_proforma L a = Inr (df, eq)"
    and "1 \<le> t" and "t \<le> nat (hold_years A * 12)"
    and "- 1 < rent_growth A" and "- 1 < expense_growth A"
  shows "MonthNum df ! (t - 1) = int t
       \<and> YearsFrac df ! (t - 1) = (real t - 1) / 12
       \<and> GrossPotentialRent df ! (t - 1) = rent_base A * (1 + rent_growth A) powr ((real t - 1) / 12)
       \<and> OtherIncome df ! (t - 1) = other_income A * (1 + rent_growth A) powr ((real t - 1) / 12)
       \<and> OperatingExpenses df ! (t - 1) = - expense_base A * (1 + expense_growth A) powr ((real t - 1) / 12)
       \<and> VacancyLoss df ! (t - 1) = - GrossPotentialRent df ! (t - 1) * vacancy A
       \<and> NetOperatingIncome df ! (t - 1) =
           GrossPotentialRent df ! (t - 1) + VacancyLoss df ! (t - 1) + OtherIncome df ! (t - 1)
             + OperatingExpenses df ! (t - 1)"
proof -
  have bf: "build_frames A = Inr (df, eq)"
    using assms(1,2) by (simp add: build_proforma_def)
  have i: "t - 1 < length (idx df)"
    using assms(3,4) frames_lengths(1)[OF bf] by simp
  have r: "real (t - 1) = real t - 1"
    using assms(3) by simp
  show ?thesis
    using years_frac_nth[OF bf i] growth_columns_nth[OF bf i assms(5,6)] noi_nth[OF bf i] assms(3)
    by (simp add: r)
qed

theorem monthly_rows_follow_growth_curves_witness:
  "read_assumptions sample_libs unlevered_input = Inr unlevered_assumptions
   \<and> (1::nat) \<le> 12 \<and> 12 \<le> nat (hold_years unlevered_assumptions * 12)
   \<and> - 1 < rent_growth unlevered_assumptions \<and> - 1 < expense_growth unlevered_assumptions
   \<and> GrossPotentialRent (fst (projr (build_proforma sample_libs unlevered_input))) ! 11 = 100
   \<and> NetOperatingIncome (fst (projr (build_proforma sample_libs unlevered_input))) ! 11 = 100"
proof -
  have b: "build_proforma sample_libs unlevered_input =
      Inr (fst (projr (build_proforma sample_libs unlevered_input)),
           snd (projr (build_proforma sample_libs unlevered_input)))"
    using unlevered_frames[of sample_libs] by simp
  have h: "(1::nat) \<le> 12" "12 \<le> nat (hold_years unlevered_assumptions * 12)"
    "- 1 < rent_growth unlevered_assumptions" "- 1 < expense_growth unlevered_assumptions"
    by (simp_all add: unlevered_assumptions_def)
  show ?thesis
    using monthly_rows_follow_growth_curves[OF read_unlevered_input b h] h
    by (simp add: read_unlevered_input) (simp add: unlevered_assumptions_def)
qed

section \<open>The equity cash flows\<close>

lemma last12_min: "last12 xs = drop (length xs - min 12 (length xs)) xs"
  by (cases "12 \<le> length xs") (simp_all add: last12_def min_def)

lemma terminal_terms:
  "sale_price_of A (sum_list (last12 (NetOperatingIncome df))) = terminal_sale_price A df"
  "loan_payoff_of (purchase_price A * ltv A) (PrincipalPayment df) = terminal_loan_payoff A df"
  by (simp_all add: sale_price_of_def terminal_sale_price_def trailing_noi_def last12_min
      loan_payoff_of_def terminal_loan_payoff_def cumulative_principal_paid_def)

lemma equity_frame:
  assumes "build_frames A = Inr (df, eq)"
  obtains doc where
    "date_of_close A = Some doc"
    "idx df = pd_date_range (plus_one_month doc) (hold_years A * 12)"
    "eq_index eq = doc # idx df"
    "UnleveredCashFlow eq =
       ((- purchase_price A - closing_costs A) # CashFlowBeforeDebtService df)
         [length (idx df) :=
            ((- purchase_price A - closing_costs A) # CashFlowBeforeDebtService df) ! length (idx df)
            + (terminal_sale_price A df - terminal_sale_cost A df)]"
    "LeveredCashFlow eq =
       ((- purchase_price A - closing_costs A + purchase_price A * ltv A) # CashFlowAfterDebtService df)
         [length (idx df) :=
            ((- purchase_price A - closing_costs A + purchase_price A * ltv A) # CashFlowAfterDebtService df) ! length (idx df)
            + terminal_net_proceeds A df]"
proof -
  from assms obtain doc where u:
    "date_of_close A = Some doc"
    "idx df = pd_date_range (plus_one_month doc) (hold_years A * 12)"
    "eq_index eq = doc # idx df"
    "UnleveredCashFlow eq =
       ((- purchase_price A - closing_costs A) # CashFlowBeforeDebtService df)
         [length (idx df) :=
            ((- purchase_price A - closing_costs A) # CashFlowBeforeDebtService df) ! length (idx df)
            + (sale_price_of A (sum_list (last12 (NetOperatingIncome df)))
               - sale_price_of A (sum_list (last12 (NetOperatingIncome df))) * cost_of_sale A)]"
    "LeveredCashFlow eq =
       ((- purchase_price A - closing_costs A + purchase_price A * ltv A) # CashFlowAfterDebtService df)
         [length (idx df) :=
            ((- purchase_price A - closing_costs A + purchase_price A * ltv A) # CashFlowAfterDebtService df) ! length (idx df)
            + (sale_price_of A (sum_list (last12 (NetOperatingIncome df)))
               - sale_price_of A (sum_list (last12 (NetOperatingIncome df))) * cost_of_sale A
               - loan_payoff_of (purchase_price A * ltv A) (PrincipalPayment df))]"
    by (rule equity_columns)
  show ?thesis
    using that[OF u(1,2,3)] u(4,5)
    unfolding terminal_terms terminal_net_proceeds_def terminal_sale_cost_def by simp
qed

lemma last_update_at_end: "length xs = n \<Longrightarrow> last ((c # xs)[n := v]) = v"
  by (simp add: last_list_update del: list_update.simps)

lemma hd_update_later: "0 < n \<Longrightarrow> hd ((c # xs)[n := v]) = c"
  by (cases n) simp_all

lemma nth_Cons_last:
  assumes "length xs = n" "0 < n"
  shows "(c # xs) ! n = last xs"
proof -
  have "xs \<noteq> []" using assms by auto
  then have "last xs = xs ! (n - 1)" using assms(1) by (simp add: last_conv_nth)
  then show ?thesis using assms(2) by (simp add: nth_Cons')
qed

lemma last_event_amounts:
  assumes bf: "build_frames A = Inr (df, eq)" and h: "1 \<le> hold_years A"
  shows "length (eq_index eq) = length (idx df) + 1
       \<and> length (UnleveredCashFlow eq) = length (idx df) + 1
       \<and> length (LeveredCashFlow eq) = length (idx df) + 1
       \<and> last (eq_index eq) = last (idx df)
       \<and> trailing_noi df = sum_list (drop (length (idx df) - min 12 (nat (hold_years A * 12))) (NetOperatingIncome df))
       \<and> terminal_sale_price A df = (if exit_cap A \<noteq> 0 then trailing_noi df / exit_cap A else 0)
       \<and> terminal_loan_payoff A df = max (purchase_price A * ltv A - cumulative_principal_paid df) 0
       \<and> last (UnleveredCashFlow eq) =
           last (CashFlowBeforeDebtService df) + (terminal_sale_price A df - terminal_sale_cost A df)
       \<and> last (LeveredCashFlow eq) =
           last (CashFlowAfterDebtService df)
             + (terminal_sale_price A df - terminal_sale_cost A df - terminal_loan_payoff A df)"
proof -
  note len = frames_lengths[OF bf]
  have n: "0 < length (idx df)" using len(1) h by simp
  from bf obtain doc where u:
    "eq_index eq = doc # idx df"
    "UnleveredCashFlow eq =
       ((- purchase_price A - closing_costs A) # CashFlowBeforeDebtService df)
         [length (idx df) :=
            ((- purchase_price A - closing_costs A) # CashFlowBeforeDebtService df) ! length (idx df)
            + (terminal_sale_price A df - terminal_sale_cost A df)]"
    "LeveredCashFlow eq =
       ((- purchase_price A - closing_costs A + purchase_price A * ltv A) # CashFlowAfterDebtService df)
         [length (idx df) :=
            ((- purchase_price A - closing_costs A + purchase_price A * ltv A) # CashFlowAfterDebtService df) ! length (idx df)
            + terminal_net_proceeds A df]"
    by (rule equity_frame)
  have l1: "length (eq_index eq) = length (idx df) + 1" by (simp add: u(1))
  have l2: "length (UnleveredCashFlow eq) = length (idx df) + 1" by (simp add: u(2) len(11) del: list_update.simps)
  have l3: "length (LeveredCashFlow eq) = length (idx df) + 1" by (simp add: u(3) len(14) del: list_update.simps)
  have d: "last (eq_index eq) = last (idx df)" using n by (simp add: u(1))
  have t: "trailing_noi df = sum_list (drop (length (idx df) - min 12 (nat (hold_years A * 12))) (NetOperatingIncome df))"
    by (simp add: trailing_noi_def len(9) len(1))
  have lu: "last (UnleveredCashFlow eq) =
           last (CashFlowBeforeDebtService df) + (terminal_sale_price A df - terminal_sale_cost A df)"
    unfolding u(2) last_update_at_end[OF len(11)] nth_Cons_last[OF len(11) n] ..
  have ll: "last (LeveredCashFlow eq) =
           last (CashFlowAfterDebtService df)
             + (terminal_sale_price A df - terminal_sale_cost A df - terminal_loan_payoff A df)"
    unfolding u(3) last_update_at_end[OF len(14)] nth_Cons_last[OF len(14) n] terminal_net_proceeds_def ..
  show ?thesis
    using l1 l2 l3 d t lu ll
    by (simp only: terminal_sale_price_def terminal_loan_payoff_def simp_thms)
qed

text \<open>
  C5. In a successful run with a hold of at least one year, the terminal equity event is
  the last monthly event with the sale added in place: the equity frame has one row more
  than the monthly frame (the closing event) and ends on the last monthly date; the
  trailing NOI is the sum over the final \<open>min 12 hold_months\<close> rows; the sale price is
  the trailing NOI over the exit cap rate, or 0 when that rate is 0; the loan payoff is
  \<open>max (loan_amount - cumulative principal paid) 0\<close>; the last unlevered amount is the
  last month's cash flow before debt service plus \<open>sale_price - sale_cost\<close>, and the last
  levered amount is the last month's cash flow after debt service plus
  \<open>sale_price - sale_cost - loan_payoff\<close>.
\<close>

theorem terminal_event_carries_the_sale:
  assumes "read_assumptions L a = Inr A" and "build_proforma L a = Inr (df, eq)"
    and "1 \<le> hold_years A"
  shows "length (eq_index eq) = length (idx df) + 1
       \<and> length (UnleveredCashFlow eq) = length (idx df) + 1
       \<and> length (LeveredCashFlow eq) = length (idx df) + 1
       \<and> last (eq_index eq) = last (idx df)
       \<and> trailing_noi df = sum_list (drop (length (idx df) - min 12 (nat (hold_years A * 12))) (NetOperatingIncome df))
       \<and> terminal_sale_price A df = (if exit_cap A \<noteq> 0 then trailing_noi df / exit_cap A else 0)
       \<and> terminal_loan_payoff A df = max (purchase_price A * ltv A - cumulative_principal_paid df) 0
       \<and> last (UnleveredCashFlow eq) =
           last (CashFlowBeforeDebtService df) + (terminal_sale_price A df - terminal_sale_cost A df)
       \<and> last (LeveredCashFlow eq) =
           last (CashFlowAfterDebtService df)
             + (terminal_sale_price A df - terminal_sale_cost A df - terminal_loan_payoff A df)"
proof -
  have "build_frames A = Inr (df, eq)"
    using assms(1,2) by (simp add: build_proforma_def)
  then show ?thesis using assms(3) by (rule last_event_amounts)
qed

text \<open>
  C6. In a successful run with a hold of at least one year, the equity frame has
  \<open>hold_months + 1\<close> events, its dates are strictly increasing and without duplicates,
  its first event is at the date of close with unlevered amount
  \<open>- purchase_price - closing_costs\<close> (the closing costs as an amount) and levered
  amount that plus the loan amount, and its last date is the last monthly date.
\<close>

theorem equity_events_are_dated_in_order:
  assumes "read_assumptions L a = Inr A" and "build_proforma L a = Inr (df, eq)"
    and "1 \<le> hold_years A" and "date_of_close A = Some doc"
  shows "length (eq_index eq) = nat (hold_years A * 12) + 1
       \<and> length (UnleveredCashFlow eq) = nat (hold_years A * 12) + 1
       \<and> length (LeveredCashFlow eq) = nat (hold_years A * 12) + 1
       \<and> sorted_wrt date_less (eq_index eq)
       \<and> distinct (eq_index eq)
       \<and> hd (eq_index eq) = doc
       \<and> hd (UnleveredCashFlow eq) = - purchase_price A - closing_costs A
       \<and> hd (LeveredCashFlow eq) = - purchase_price A - closing_costs A + purchase_price A * ltv A
       \<and> last (eq_index eq) = last (idx df)"
proof -
  have bf: "build_frames A = Inr (df, eq)"
    using assms(1,2) by (simp add: build_proforma_def)
  note len = frames_lengths[OF bf]
  have n: "0 < length (idx df)" using len(1) assms(3) by simp
  from bf obtain doc' where u:
    "date_of_close A = Some doc'"
    "idx df = pd_date_range (plus_one_month doc') (hold_years A * 12)"
    "eq_index eq = doc' # idx df"
    "UnleveredCashFlow eq =
       ((- purchase_price A - closing_costs A) # CashFlowBeforeDebtService df)
         [length (idx df) :=
            ((- purchase_price A - closing_costs A) # CashFlowBeforeDebtService df) ! length (idx df)
            + (terminal_sale_price A df - terminal_sale_cost A df)]"
    "LeveredCashFlow eq =
       ((- purchase_price A - closing_costs A + purchase_price A * ltv A) # CashFlowAfterDebtService df)
         [length (idx df) :=
            ((- purchase_price A - closing_costs A + purchase_price A * ltv A) # CashFlowAfterDebtService df) ! length (idx df)
            + terminal_net_proceeds A df]"
    by (rule equity_frame)
  have doc: "doc' = doc" using u(1) assms(4) by simp
  have srt: "sorted_wrt date_less (eq_index eq)"
    unfolding u(3) u(2) by (rule sorted_equity_index)
  have l1: "length (eq_index eq) = nat (hold_years A * 12) + 1" by (simp add: u(3) len(1))
  have l2: "length (UnleveredCashFlow eq) = nat (hold_years A * 12) + 1"
    by (simp add: u(4) len(11) len(1) del: list_update.simps)
  have l3: "length (LeveredCashFlow eq) = nat (hold_years A * 12) + 1"
    by (simp add: u(5) len(14) len(1) del: list_update.simps)
  have h1: "hd (eq_index eq) = doc" by (simp add: u(3) doc)
  have h2: "hd (UnleveredCashFlow eq) = - purchase_price A - closing_costs A"
    unfolding u(4) by (rule hd_update_later[OF n])
  have h3: "hd (LeveredCashFlow eq) = - purchase_price A - closing_costs A + purchase_price A * ltv A"
    unfolding u(5) by (rule hd_update_later[OF n])
  have d: "last (eq_index eq) = last (idx df)" using n by (simp add: u(3))
  show ?thesis
    using l1 l2 l3 srt sorted_wrt_date_less_distinct[OF srt] h1 h2 h3 d by simp
qed

lemma unlevered_frames_pair:
  "build_proforma L unlevered_input =
     Inr (fst (projr (build_proforma L unlevered_input)), snd (projr (build_proforma L unlevered_input)))"
  using unlevered_frames[of L] by simp

theorem terminal_event_carries_the_sale_witness:
  "read_assumptions sample_libs unlevered_input = Inr unlevered_assumptions
   \<and> 1 \<le> hold_years unlevered_assumptions
   \<and> length (eq_index (snd (projr (build_proforma sample_libs unlevered_input)))) =
       length (idx (fst (projr (build_proforma sample_libs unlevered_input)))) + 1
   \<and> last (eq_index (snd (projr (build_proforma sample_libs unlevered_input)))) =
       last (idx (fst (projr (build_proforma sample_libs unlevered_input))))"
proof -
  have h: "1 \<le> hold_years unlevered_assumptions"
    by (simp add: unlevered_assumptions_def)
  show ?thesis
    using terminal_event_carries_the_sale[OF read_unlevered_input[of sample_libs] unlevered_frames_pair[of sample_libs] h] h
    by (simp add: read_unlevered_input)
qed

theorem equity_events_are_dated_in_order_witness:
  "read_assumptions sample_libs unlevered_input = Inr unlevered_assumptions
   \<and> 1 \<le> hold_years unlevered_assumptions
   \<and> date_of_close unlevered_assumptions = Some (Date 2020 1 1)
   \<and> length (eq_index (snd (projr (build_proforma sample_libs unlevered_input)))) = 13
   \<and> distinct (eq_index (snd (projr (build_proforma sample_libs unlevered_input))))
   \<and> hd (eq_index (snd (projr (build_proforma sample_libs unlevered_input)))) = Date 2020 1 1
   \<and> hd (UnleveredCashFlow (snd (projr (build_proforma sample_libs unlevered_input)))) = - 1000"
proof -
  have h: "1 \<le> hold_years unlevered_assumptions"
    "date_of_close unlevered_assumptions = Some (Date 2020 1 1)"
    by (simp_all add: unlevered_assumptions_def)
  show ?thesis
    using equity_events_are_dated_in_order[OF read_unlevered_input[of sample_libs] unlevered_frames_pair[of sample_libs] h] h
    by (simp add: read_unlevered_input) (simp add: unlevered_assumptions_def)
qed

lemma map_zero: "map (\<lambda>m. 0) xs = replicate (length xs) 0"
  by (simp add: map_replicate_const)

lemma no_loan_frames:
  assumes bf: "build_frames A = Inr (df, eq)" and z: "purchase_price A * ltv A = 0"
  shows "InterestPayment df = replicate (nat (hold_years A * 12)) 0
       \<and> PrincipalPayment df = replicate (nat (hold_years A * 12)) 0
       \<and> terminal_loan_payoff A df = 0
       \<and> CashFlowAfterDebtService df = CashFlowBeforeDebtService df
       \<and> LeveredCashFlow eq = UnleveredCashFlow eq"
proof -
  note len = frames_lengths[OF bf]
  from bf obtain doc rc ec cc where u:
    "date_of_close A = Some doc"
    "map_res (np_power (1 + rent_growth A)) (YearsFrac df) = Inr rc"
    "map_res (np_power (1 + expense_growth A)) (YearsFrac df) = Inr ec"
    "map_res (np_power (1 + capex_growth A)) (YearsFrac df) = Inr cc"
    "if purchase_price A * ltv A > 0
     then map_res (npf_ipmt (interest_rate A / 12) (amort_years A * 12) (purchase_price A * ltv A)) (MonthNum df) = Inr (InterestPayment df)
        \<and> map_res (npf_ppmt (interest_rate A / 12) (amort_years A * 12) (purchase_price A * ltv A)) (MonthNum df) = Inr (PrincipalPayment df)
     else InterestPayment df = map (\<lambda>m. 0) (MonthNum df) \<and> PrincipalPayment df = map (\<lambda>m. 0) (MonthNum df)"
    "CashFlowAfterDebtService df = vadd (vadd (CashFlowBeforeDebtService df) (InterestPayment df)) (PrincipalPayment df)"
    by (rule build_frames_monthly)
  have ip: "InterestPayment df = replicate (nat (hold_years A * 12)) 0"
    and pp: "PrincipalPayment df = replicate (nat (hold_years A * 12)) 0"
    using u(5) z len(1,2) by (simp_all add: map_zero)
  have payoff: "terminal_loan_payoff A df = 0"
    by (simp add: terminal_loan_payoff_def cumulative_principal_paid_def pp z sum_list_replicate)
  have cf: "CashFlowAfterDebtService df = CashFlowBeforeDebtService df"
    unfolding u(6) ip pp using len(1,11) by (simp add: vadd_zeros)
  from bf obtain doc' where e:
    "date_of_close A = Some doc'"
    "UnleveredCashFlow eq =
       ((- purchase_price A - closing_costs A) # CashFlowBeforeDebtService df)
         [length (idx df) :=
            ((- purchase_price A - closing_costs A) # CashFlowBeforeDebtService df) ! length (idx df)
            + (terminal_sale_price A df - terminal_sale_cost A df)]"
    "LeveredCashFlow eq =
       ((- purchase_price A - closing_costs A + purchase_price A * ltv A) # CashFlowAfterDebtService df)
         [length (idx df) :=
            ((- purchase_price A - closing_costs A + purchase_price A * ltv A) # CashFlowAfterDebtService df) ! length (idx df)
            + terminal_net_proceeds A df]"
    by (rule equity_frame)
  have "LeveredCashFlow eq = UnleveredCashFlow eq"
    unfolding e(2,3) cf terminal_net_proceeds_def payoff z by simp
  then show ?thesis using ip pp payoff cf by simp
qed

text \<open>
  C9. In a successful run with loan amount \<open>purchase_price * ltv = 0\<close>, the interest
  payment and the principal payment are 0 in every month, the terminal loan payoff is 0,
  and the levered cash flows equal the unlevered ones, in the monthly frame and in every
  equity event.
\<close>

theorem no_loan_no_debt_service:
  assumes "read_assumptions L a = Inr A" and "build_proforma L a = Inr (df, eq)"
    and "purchase_price A * ltv A = 0"
  shows "InterestPayment df = replicate (nat (hold_years A * 12)) 0
       \<and> PrincipalPayment df = replicate (nat (hold_years A * 12)) 0
       \<and> terminal_loan_payoff A df = 0
       \<and> CashFlowAfterDebtService df = CashFlowBeforeDebtService df
       \<and> LeveredCashFlow eq = UnleveredCashFlow eq"
proof -
  have "build_frames A = Inr (df, eq)"
    using assms(1,2) by (simp add: build_proforma_def)
  then show ?thesis using assms(3) by (rule no_loan_frames)
qed

theorem no_loan_no_debt_service_witness:
  "read_assumptions sample_libs unlevered_input = Inr unlevered_assumptions
   \<and> purchase_price unlevered_assumptions * ltv unlevered_assumptions = 0
   \<and> InterestPayment (fst (projr (build_proforma sample_libs unlevered_input))) = replicate 12 0
   \<and> PrincipalPayment (fst (projr (build_proforma sample_libs unlevered_input))) = replicate 12 0
   \<and> LeveredCashFlow (snd (projr (build_proforma sample_libs unlevered_input))) =
       UnleveredCashFlow (snd (projr (build_proforma sample_libs unlevered_input)))"
proof -
  have h: "purchase_price unlevered_assumptions * ltv unlevered_assumptions = 0"
    by (simp add: unlevered_assumptions_def)
  have n: "nat (hold_years unlevered_assumptions * 12) = 12"
    by (simp add: unlevered_assumptions_def)
  show ?thesis
    using no_loan_no_debt_service[OF read_unlevered_input[of sample_libs] unlevered_frames_pair[of sample_libs] h] h
    by (simp add: read_unlevered_input n)
qed

section \<open>The amortization schedule\<close>

lemma npf_ppmt_closed_form:
  assumes "0 < rate" "1 \<le> nper" "1 \<le> per"
  shows "npf_ppmt rate nper loan per =
           Inr ((1 + rate) ^ nat (per - 1) * (- (rate * loan) / ((1 + rate) ^ nat nper - 1)))"
proof -
  define q where "q = 1 + rate"
  define Q where "Q = q powr (- of_int nper)"
  define g where "g = q powr (of_int (per - 1))"
  have q: "1 < q" using assms(1) by (simp add: q_def)
  have qn: "1 < q ^ nat nper"
    using q assms(2) by (intro one_less_power) simp_all
  have Q: "Q = 1 / q ^ nat nper"
    using q assms(2) by (simp add: Q_def powr_minus powr_real_of_int inverse_eq_divide)
  have g: "g = q ^ nat (per - 1)"
    using powr_real_of_int[of q "per - 1"] q assms(3) by (simp add: g_def)
  have Q1: "Q < 1" using qn by (simp add: Q)
  have lv: "level_payment rate nper loan = Inr (- loan * rate / (1 - Q))"
    using level_payment_pos[OF assms(1,2)] by (simp add: Q_def q_def)
  have pw: "np_power (1 + rate) (real_of_int per - 1) = Inr g"
    using assms(1) by (simp add: np_power_base_pos g_def q_def)
  have ip: "npf_ipmt rate nper loan per =
      Inr (- (rate * (loan * g + (- loan * rate / (1 - Q)) * (g - 1) / rate)))"
    using assms(1) by (simp add: npf_ipmt_def lv pw)
  have pp: "npf_ppmt rate nper loan per =
      Inr (- loan * rate / (1 - Q) - (- (rate * (loan * g + (- loan * rate / (1 - Q)) * (g - 1) / rate))))"
    by (simp add: npf_ppmt_def lv ip)
  define lv where "lv = - loan * rate / (1 - Q)"
  have d: "q ^ nat nper - 1 \<noteq> 0" "q ^ nat nper \<noteq> 0" "rate \<noteq> 0"
    using qn assms(1) q by simp_all
  have "1 - Q = (q ^ nat nper - 1) / q ^ nat nper"
    using d by (simp add: Q field_simps)
  then have lvP: "lv = - (loan * rate * q ^ nat nper) / (q ^ nat nper - 1)"
    using d by (simp add: lv_def)
  have e1: "lv - (- (rate * (loan * g + lv * (g - 1) / rate))) = g * (lv + rate * loan)"
    using d(3) by (simp add: field_simps)
  have e2: "lv + rate * loan = - (rate * loan) / (q ^ nat nper - 1)"
    using d(1) by (simp add: lvP field_simps)
  have "- loan * rate / (1 - Q) - (- (rate * (loan * g + (- loan * rate / (1 - Q)) * (g - 1) / rate)))
      = g * (- (rate * loan) / (q ^ nat nper - 1))"
    using e1 e2 by (simp only: lv_def)
  then show ?thesis by (simp add: pp g q_def)
qed

lemma sum_list_geometric:
  "sum_list (map (\<lambda>m. q ^ nat (int m - 1) * (c::real)) [1 ..< Suc n]) = c * (\<Sum>i<n. q ^ i)"
proof (induction n)
  case 0
  then show ?case by simp
next
  case (Suc n)
  have "[1 ..< Suc (Suc n)] = [1 ..< Suc n] @ [Suc n]"
    by (rule upt_Suc_append) simp
  then have "sum_list (map (\<lambda>m. q ^ nat (int m - 1) * c) [1 ..< Suc (Suc n)]) =
      sum_list (map (\<lambda>m. q ^ nat (int m - 1) * c) [1 ..< Suc n]) + q ^ n * c"
    by (simp del: upt_Suc)
  also have "\<dots> = c * (\<Sum>i<n. q ^ i) + q ^ n * c"
    by (simp only: Suc.IH)
  also have "\<dots> = c * (\<Sum>i<Suc n. q ^ i)"
    by (simp add: algebra_simps)
  finally show ?case .
qed

lemma full_term_principal:
  assumes "0 < rate" "1 \<le> nper"
  shows "map_res (npf_ppmt rate nper loan) (map int [1 ..< nat nper + 1]) =
           Inr (map (\<lambda>m. (1 + rate) ^ nat (m - 1) * (- (rate * loan) / ((1 + rate) ^ nat nper - 1)))
                  (map int [1 ..< nat nper + 1]))"
    and "sum_list (map (\<lambda>m. (1 + rate) ^ nat (m - 1) * (- (rate * loan) / ((1 + rate) ^ nat nper - 1)))
                  (map int [1 ..< nat nper + 1])) = - loan"
proof -
  show "map_res (npf_ppmt rate nper loan) (map int [1 ..< nat nper + 1]) =
           Inr (map (\<lambda>m. (1 + rate) ^ nat (m - 1) * (- (rate * loan) / ((1 + rate) ^ nat nper - 1)))
                  (map int [1 ..< nat nper + 1]))"
    by (rule map_res_total) (auto simp: npf_ppmt_closed_form[OF assms] simp del: upt_Suc)
  define C where "C = - (rate * loan) / ((1 + rate) ^ nat nper - 1)"
  have q: "1 + rate \<noteq> 1" "1 < (1 + rate) ^ nat nper"
    using assms by simp_all
  have geo: "(\<Sum>i<nat nper. (1 + rate) ^ i) = ((1 + rate) ^ nat nper - 1) / rate"
    using geometric_sum[OF q(1), of "nat nper"] by simp
  have "map (\<lambda>m. (1 + rate) ^ nat (m - 1) * C) (map int [1 ..< nat nper + 1]) =
        map (\<lambda>m. (1 + rate) ^ nat (int m - 1) * C) [1 ..< Suc (nat nper)]"
    by (simp del: upt_Suc)
  then have "sum_list (map (\<lambda>m. (1 + rate) ^ nat (m - 1) * C) (map int [1 ..< nat nper + 1])) =
        C * (\<Sum>i<nat nper. (1 + rate) ^ i)"
    by (simp only: sum_list_geometric)
  also have "\<dots> = - loan"
    using q(2) assms(1) by (simp add: geo C_def)
  finally show "sum_list (map (\<lambda>m. (1 + rate) ^ nat (m - 1) * (- (rate * loan) / ((1 + rate) ^ nat nper - 1)))
                  (map int [1 ..< nat nper + 1])) = - loan"
    by (simp only: C_def)
qed

text \<open>
  C4. With a positive loan amount, a positive monthly rate and an amortization term of at
  least one year, the principal payments of the months 1 to
  \<open>amortization_years * 12\<close>, each the level payment minus that month's interest, sum
  to minus the loan amount: exactly over the reals, hence within the relative tolerance
  \<open>10^(-6)\<close>. When the hold period equals the amortization term, these are the principal
  payments of the monthly frame.
\<close>

theorem full_amortization_repays_the_loan:
  assumes "0 < purchase_price A * ltv A" and "0 < interest_rate A / 12" and "1 \<le> amort_years A"
  shows "\<exists>level pps.
           level_payment (interest_rate A / 12) (amort_years A * 12) (purchase_price A * ltv A) = Inr level
         \<and> map_res (npf_ppmt (interest_rate A / 12) (amort_years A * 12) (purchase_price A * ltv A))
               (map int [1 ..< nat (amort_years A * 12) + 1]) = Inr pps
         \<and> length pps = nat (amort_years A * 12)
         \<and> sum_list pps = - (purchase_price A * ltv A)
         \<and> \<bar>sum_list pps - (- (purchase_price A * ltv A))\<bar> \<le> 1 / 10 ^ 6 * \<bar>purchase_price A * ltv A\<bar>
         \<and> (hold_years A = amort_years A \<longrightarrow>
              (\<forall>df eq. build_frames A = Inr (df, eq) \<longrightarrow>
                 PrincipalPayment df = pps \<and> sum_list (PrincipalPayment df) = - (purchase_price A * ltv A)))"
proof -
  define rate where "rate = interest_rate A / 12"
  define nper where "nper = amort_years A * 12"
  define loan where "loan = purchase_price A * ltv A"
  define pps where
    "pps = map (\<lambda>m. (1 + rate) ^ nat (m - 1) * (- (rate * loan) / ((1 + rate) ^ nat nper - 1)))
             (map int [1 ..< nat nper + 1])"
  have r: "0 < rate" and n: "1 \<le> nper"
    using assms(2,3) by (simp_all add: rate_def nper_def)
  obtain level where lv: "level_payment rate nper loan = Inr level"
    using level_payment_succeeds[of rate nper loan] r n by auto
  have m: "map_res (npf_ppmt rate nper loan) (map int [1 ..< nat nper + 1]) = Inr pps"
    unfolding pps_def by (rule full_term_principal(1)[OF r n])
  have s: "sum_list pps = - loan"
    unfolding pps_def by (rule full_term_principal(2)[OF r n])
  have l: "length pps = nat nper"
    unfolding pps_def by (simp only: length_map length_upt add_diff_cancel_right')
  have b: "PrincipalPayment df = pps \<and> sum_list (PrincipalPayment df) = - loan"
    if h: "hold_years A = amort_years A" and bf: "build_frames A = Inr (df, eq)" for df eq
  proof -
    from bf obtain doc rc ec cc where u:
      "date_of_close A = Some doc"
      "MonthNum df = map int [1 ..< length (idx df) + 1]"
      "map_res (np_power (1 + rent_growth A)) (YearsFrac df) = Inr rc"
      "map_res (np_power (1 + expense_growth A)) (YearsFrac df) = Inr ec"
      "map_res (np_power (1 + capex_growth A)) (YearsFrac df) = Inr cc"
      "if purchase_price A * ltv A > 0
       then map_res (npf_ipmt (interest_rate A / 12) (amort_years A * 12) (purchase_price A * ltv A)) (MonthNum df) = Inr (InterestPayment df)
          \<and> map_res (npf_ppmt (interest_rate A / 12) (amort_years A * 12) (purchase_price A * ltv A)) (MonthNum df) = Inr (PrincipalPayment df)
       else InterestPayment df = map (\<lambda>m. 0) (MonthNum df) \<and> PrincipalPayment df = map (\<lambda>m. 0) (MonthNum df)"
      by (rule build_frames_monthly)
    have "length (idx df) = nat nper"
      using frames_lengths(1)[OF bf] h by (simp add: nper_def)
    then have "MonthNum df = map int [1 ..< nat nper + 1]"
      using u(2) by simp
    then have "map_res (npf_ppmt rate nper loan) (map int [1 ..< nat nper + 1]) = Inr (PrincipalPayment df)"
      using u(6) assms(1) by (simp add: rate_def nper_def loan_def)
    then have "PrincipalPayment df = pps" using m by simp
    then show ?thesis using s by simp
  qed
  have "level_payment rate nper loan = Inr level
      \<and> map_res (npf_ppmt rate nper loan) (map int [1 ..< nat nper + 1]) = Inr pps
      \<and> length pps = nat nper
      \<and> sum_list pps = - loan
      \<and> \<bar>sum_list pps - (- loan)\<bar> \<le> 1 / 10 ^ 6 * \<bar>loan\<bar>
      \<and> (hold_years A = amort_years A \<longrightarrow>
              (\<forall>df eq. build_frames A = Inr (df, eq) \<longrightarrow>
                 PrincipalPayment df = pps \<and> sum_list (PrincipalPayment df) = - loan))"
    using lv m l s b by simp
  then show ?thesis
    unfolding rate_def nper_def loan_def by blast
qed

theorem full_amortization_repays_the_loan_witness:
  "0 < purchase_price levered_assumptions * ltv levered_assumptions
   \<and> 0 < interest_rate levered_assumptions / 12
   \<and> 1 \<le> amort_years levered_assumptions
   \<and> (\<exists>pps. map_res (npf_ppmt (interest_rate levered_assumptions / 12)
                  (amort_years levered_assumptions * 12)
                  (purchase_price levered_assumptions * ltv levered_assumptions))
               (map int [1 ..< nat (amort_years levered_assumptions * 12) + 1]) = Inr pps
            \<and> length pps = 360
            \<and> sum_list pps = - 700)"
proof -
  have h: "0 < purchase_price levered_assumptions * ltv levered_assumptions"
    "0 < interest_rate levered_assumptions / 12" "1 \<le> amort_years levered_assumptions"
    by (simp_all add: levered_assumptions_def unlevered_assumptions_def)
  have v: "purchase_price levered_assumptions * ltv levered_assumptions = 700"
    "nat (amort_years levered_assumptions * 12) = 360"
    by (simp_all add: levered_assumptions_def unlevered_assumptions_def)
  from full_amortization_repays_the_loan[OF h] obtain level pps where
    "level_payment (interest_rate levered_assumptions / 12) (amort_years levered_assumptions * 12)
       (purchase_price levered_assumptions * ltv levered_assumptions) = Inr level"
    "map_res (npf_ppmt (interest_rate levered_assumptions / 12)
                  (amort_years levered_assumptions * 12)
                  (purchase_price levered_assumptions * ltv levered_assumptions))
               (map int [1 ..< nat (amort_years levered_assumptions * 12) + 1]) = Inr pps"
    "length pps = nat (amort_years levered_assumptions * 12)"
    "sum_list pps = - (purchase_price levered_assumptions * ltv levered_assumptions)"
    by blast
  then show ?thesis using h v by (simp only: simp_thms) blast
qed

section \<open>A hold period of zero\<close>

lemma build_frames_zero_hold:
  assumes "hold_years A = 0" "date_of_close A = Some doc"
  shows "build_frames A =
           Inr (empty_monthly,
                \<lparr> eq_index = [doc],
                  UnleveredCashFlow = [- purchase_price A - closing_costs A],
                  LeveredCashFlow = [- purchase_price A - closing_costs A + purchase_price A * ltv A
                                       - max (purchase_price A * ltv A) 0] \<rparr>)"
  using assms
  by (simp add: build_frames_def Let_def pd_date_range_def empty_monthly_def vadd_def loc_set_def
      last12_def sale_price_of_def loan_payoff_of_def)

text \<open>
  C7, as amended. A hold period that truncates to zero years is not rejected: with a date
  of close, \<^verbatim>\<open>build_proforma\<close> returns an empty monthly schedule and an equity frame
  of one event, the closing event with the sale terms (all zero but the loan payoff) added
  to it. The engines contain no check of \<^verbatim>\<open>hold_period_years\<close>.
\<close>

theorem zero_hold_is_not_rejected:
  assumes "read_assumptions L a = Inr A" and "hold_years A = 0" and "date_of_close A = Some doc"
  shows "build_proforma L a =
           Inr (empty_monthly,
                \<lparr> eq_index = [doc],
                  UnleveredCashFlow = [- purchase_price A - closing_costs A],
                  LeveredCashFlow = [- purchase_price A - closing_costs A + purchase_price A * ltv A
                                       - max (purchase_price A * ltv A) 0] \<rparr>)"
  using assms by (simp add: build_proforma_def build_frames_zero_hold)

lemma read_zero_hold_input:
  "read_assumptions L zero_hold_input =
     Inr \<lparr> date_of_close = Some (Date 2020 1 1), hold_years = 0, purchase_price = 1000,
           closing_costs = 20, rent_base = 0, vacancy = 0.05, other_income = 0, expense_base = 0,
           capex_initial = 0, rent_growth = 0.04, expense_growth = 0.025, capex_growth = 0.02,
           appreciation = 0.054, exit_cap = 0.055, cost_of_sale = 0.05, ltv = 0,
           interest_rate = 0.045, amort_years = 30 \<rparr>"
  by (simp add: read_assumptions_def zero_hold_input_def dget_def
      f_def truthy_def py_float_def pd_Timestamp_def py_int_def)

theorem zero_hold_is_not_rejected_witness:
  "hold_years (projr (read_assumptions failing_libs zero_hold_input)) = 0
   \<and> date_of_close (projr (read_assumptions failing_libs zero_hold_input)) = Some (Date 2020 1 1)
   \<and> build_proforma failing_libs zero_hold_input =
       Inr (empty_monthly,
            \<lparr> eq_index = [Date 2020 1 1], UnleveredCashFlow = [- 1020], LeveredCashFlow = [- 1020] \<rparr>)"
  using zero_hold_is_not_rejected[OF read_zero_hold_input, of "Date 2020 1 1" failing_libs]
  by (simp add: read_zero_hold_input)

text \<open>The claim as stated fails at a hold period of 0: the engine returns, with an empty
  monthly schedule.\<close>


theorem zero_hold_counterexample:
  "build_proforma sample_libs zero_hold_input =
     Inr (empty_monthly,
          \<lparr> eq_index = [Date 2020 1 1], UnleveredCashFlow = [- 1020], LeveredCashFlow = [- 1020] \<rparr>)"
  by (simp add: build_proforma_def read_zero_hold_input build_frames_zero_hold)

section \<open>The return metrics engine and the caller's dictionary\<close>

lemma clean_loop_frame:
  "length (clean_loop L S dc items) = length S
   \<and> (\<forall>i. i \<noteq> dc \<longrightarrow> clean_loop L S dc items ! i = S ! i)"
proof (induction items arbitrary: S)
  case Nil
  then show ?case by simp
next
  case (Cons kv items)
  obtain key val where kv: "kv = (key, val)" by (cases kv)
  show ?case
    using Cons.IH[of "store_set S dc key (PNum (safe_float L val))"] Cons.IH[of S]
    by (simp add: kv store_set_def)
qed

text \<open>
  C10. \<^verbatim>\<open>generate_return_metrics\<close> leaves the caller's dictionary as it was: after the
  call, whatever its outcome, the store holds at the address of the input the same
  dictionary (the same keys with the same values, in the same order), every dictionary
  that existed before is unchanged, and exactly one dictionary, the cleaned copy, is new.
\<close>

theorem input_dictionary_is_left_unchanged:
  assumes "data < length S"
  shows "snd (generate_return_metrics L S data) ! data = S ! data
       \<and> take (length S) (snd (generate_return_metrics L S data)) = S
       \<and> length (snd (generate_return_metrics L S data)) = length S + 1"
proof -
  define S1 where "S1 = S @ [S ! data]"
  define S2 where "S2 = clean_loop L S1 (length S) (S1 ! length S)"
  have snd: "snd (generate_return_metrics L S data) = S2"
    by (simp add: generate_return_metrics_def dict_copy_def Let_def S2_def S1_def)
  have len: "length S2 = length S + 1"
    using clean_loop_frame[of L S1 "length S" "S1 ! length S"] by (simp add: S2_def S1_def)
  have old: "S2 ! i = S ! i" if "i < length S" for i
  proof -
    have "S2 ! i = S1 ! i"
      using clean_loop_frame[of L S1 "length S" "S1 ! length S"] that by (simp add: S2_def)
    then show ?thesis using that by (simp add: S1_def nth_append)
  qed
  have "take (length S) S2 = S"
    by (rule nth_equalityI) (simp_all add: len old)
  then show ?thesis using old[OF assms] len by (simp add: snd)
qed

theorem input_dictionary_is_left_unchanged_witness:
  "(0::nat) < length [unlevered_input]
   \<and> snd (generate_return_metrics sample_libs [unlevered_input] 0) ! 0 = unlevered_input
   \<and> length (snd (generate_return_metrics sample_libs [unlevered_input] 0)) = 2"
proof -
  have h: "(0::nat) < length [unlevered_input]" by simp
  show ?thesis
    using input_dictionary_is_left_unchanged[OF h, of sample_libs] by simp
qed

section \<open>Absent fields\<close>

lemma dget_append_absent:
  "map_of a k = None \<Longrightarrow> dget (a @ [(k, v)]) k' d = (if k' = k then v else dget a k' d)"
  by (simp add: dget_def map_add_def split: option.splits)

lemma dget_absent: "map_of a k = None \<Longrightarrow> dget a k d = d"
  by (simp add: dget_def)

lemma f_PNum [simp]: "f L (PNum x) = Inr x"
  by (simp add: f_def truthy_def py_float_def)

lemma f_PNone [simp]: "f L PNone = Inr 0"
  by (simp add: f_def truthy_def)

lemma proforma_defaults_cases:
  assumes "(k, d) \<in> set proforma_defaults"
  shows "k = ''hold_period_years'' \<and> d = 10 \<or> k = ''purchase_price'' \<and> d = 0
    \<or> k = ''closing_costs'' \<and> d = 0.02 \<or> k = ''rent_immediately_after_purchase'' \<and> d = 0
    \<or> k = ''vacancy_immediately_after_purchase'' \<and> d = 0.05
    \<or> k = ''other_income_immediately_after_purchase'' \<and> d = 0
    \<or> k = ''operating_expenses_after_purchase'' \<and> d = 0
    \<or> k = ''capital_expense_after_purchase'' \<and> d = 0
    \<or> k = ''expected_rent_growth'' \<and> d = 0.04 \<or> k = ''expected_expense_growth'' \<and> d = 0.025
    \<or> k = ''expected_capex_growth'' \<and> d = 0.02 \<or> k = ''expected_appreciation'' \<and> d = 0.054
    \<or> k = ''exit_cap_rate_expectation'' \<and> d = 0.055 \<or> k = ''cost_of_sale_percentage'' \<and> d = 0.05
    \<or> k = ''ltv'' \<and> d = 0.7 \<or> k = ''interest_rate'' \<and> d = 0.045
    \<or> k = ''amortization_years'' \<and> d = 30"
  using assms unfolding proforma_defaults_def
  by (simp only: list.set insert_iff empty_iff prod.inject simp_thms)

lemma read_assumptions_default:
  assumes "(k, d) \<in> set proforma_defaults" and "map_of a k = None"
  shows "read_assumptions L (a @ [(k, PNum d)]) = read_assumptions L a"
  using proforma_defaults_cases[OF assms(1)] assms(2)
  by (elim disjE conjE; hypsubst; simp add: read_assumptions_def dget_append_absent dget_absent)

lemma first_event_amounts:
  assumes "build_frames A = Inr (df, eq)" and "1 \<le> hold_years A"
  shows "hd (UnleveredCashFlow eq) = - purchase_price A - closing_costs A"
    and "hd (LeveredCashFlow eq) = - purchase_price A - closing_costs A + purchase_price A * ltv A"
proof -
  have n: "0 < length (idx df)" using frames_lengths(1)[OF assms(1)] assms(2) by simp
  from assms(1) obtain doc where u:
    "date_of_close A = Some doc"
    "UnleveredCashFlow eq =
       ((- purchase_price A - closing_costs A) # CashFlowBeforeDebtService df)
         [length (idx df) :=
            ((- purchase_price A - closing_costs A) # CashFlowBeforeDebtService df) ! length (idx df)
            + (terminal_sale_price A df - terminal_sale_cost A df)]"
    "LeveredCashFlow eq =
       ((- purchase_price A - closing_costs A + purchase_price A * ltv A) # CashFlowAfterDebtService df)
         [length (idx df) :=
            ((- purchase_price A - closing_costs A + purchase_price A * ltv A) # CashFlowAfterDebtService df) ! length (idx df)
            + terminal_net_proceeds A df]"
    by (rule equity_frame)
  show "hd (UnleveredCashFlow eq) = - purchase_price A - closing_costs A"
    unfolding u(2) by (rule hd_update_later[OF n])
  show "hd (LeveredCashFlow eq) = - purchase_price A - closing_costs A + purchase_price A * ltv A"
    unfolding u(3) by (rule hd_update_later[OF n])
qed

lemma read_sparse_input:
  "read_assumptions L sparse_input = Inr (sparse_assumptions 0.02)"
  by (simp add: read_assumptions_def sparse_input_def sparse_assumptions_def dget_def
      f_def truthy_def py_float_def pd_Timestamp_def py_int_def)

lemma read_sparse_input_closing:
  "read_assumptions L (sparse_input @ [(''closing_costs'', PNum 0)]) = Inr (sparse_assumptions 0)"
  by (simp add: read_assumptions_def sparse_input_def sparse_assumptions_def dget_def
      f_def truthy_def py_float_def pd_Timestamp_def py_int_def)

lemma sparse_frames: "\<exists>r. build_frames (sparse_assumptions c) = Inr r"
  by (rule build_frames_succeeds[where doc = "Date 2020 1 1"])
     (simp_all add: sparse_assumptions_def)

lemma read_only_date:
  "read_assumptions L [(''date_of_close'', PDate dt)] =
     Inr \<lparr> date_of_close = Some dt, hold_years = 10, purchase_price = 0, closing_costs = 0,
           rent_base = 0, vacancy = 0.05, other_income = 0, expense_base = 0, capex_initial = 0,
           rent_growth = 0.04, expense_growth = 0.025, capex_growth = 0.02, appreciation = 0.054,
           exit_cap = 0.055, cost_of_sale = 0.05, ltv = 0.7, interest_rate = 0.045,
           amort_years = 30 \<rparr>"
  by (simp add: read_assumptions_def dget_def f_def truthy_def py_float_def pd_Timestamp_def
      py_int_def)

text \<open>
  C8, as amended. \<^verbatim>\<open>build_proforma\<close> treats every numeric field that is absent from
  the record as the value its code gives: the listed defaults, 0.02 for
  \<^verbatim>\<open>closing_costs\<close>, and 0.0 for the others. Adding an absent key with that value does
  not change its result, and with every numeric field absent it returns without raising.
\<close>

theorem absent_fields_take_the_proforma_defaults:
  assumes "(k, d) \<in> set proforma_defaults" and "map_of a k = None"
  shows "build_proforma L (a @ [(k, PNum d)]) = build_proforma L a
       \<and> (\<exists>r. build_proforma L [(''date_of_close'', PDate dt)] = Inr r)"
proof -
  have "build_proforma L (a @ [(k, PNum d)]) = build_proforma L a"
    by (simp add: build_proforma_def read_assumptions_default[OF assms])
  moreover have "\<exists>r. build_proforma L [(''date_of_close'', PDate dt)] = Inr r"
    unfolding build_proforma_def read_only_date bnd_Inr
    by (rule build_frames_succeeds[where doc = dt]) simp_all
  ultimately show ?thesis by simp
qed

theorem absent_fields_take_the_proforma_defaults_witness:
  "(''ltv'', 0.7) \<in> set proforma_defaults \<and> map_of sparse_input ''ltv'' = None
   \<and> build_proforma sample_libs (sparse_input @ [(''ltv'', PNum 0.7)]) =
       build_proforma sample_libs sparse_input"
proof -
  have h: "(''ltv'', 0.7) \<in> set proforma_defaults" "map_of sparse_input ''ltv'' = None"
    by (simp_all add: proforma_defaults_def sparse_input_def)
  show ?thesis
    using absent_fields_take_the_proforma_defaults[OF h, of sample_libs] h by simp
qed

lemma clean_sparse_input:
  "clean_loop L [sparse_input, sparse_input] (Suc 0) sparse_input = [sparse_input, sparse_input]"
  by (simp add: sparse_input_def store_set_def is_int_float_str_def text_keys_def safe_float_def
      py_float_def)

lemma compute_metrics_sparse: "compute_metrics L sparse_input = Inl KeyError"
proof -
  obtain df eq where bf: "build_frames (sparse_assumptions 0.02) = Inr (df, eq)"
    using sparse_frames[of "0.02"] by auto
  have bp: "build_proforma L sparse_input = Inr (df, eq)"
    unfolding build_proforma_def read_sparse_input bnd_Inr by (rule bf)
  have cap: "\<exists>v. going_in_cap_rate df sparse_input = Inr v"
    by (simp add: going_in_cap_rate_def sparse_input_def dget_def dsub_def truthy_def
        num_operand_def Let_def)
  have lc: "loan_constant sparse_input df = Inl KeyError"
    by (simp add: loan_constant_def sparse_input_def dsub_def)
  from cap obtain v where "going_in_cap_rate df sparse_input = Inr v" by blast
  then show ?thesis
    by (simp add: compute_metrics_def bp lc)
qed

text \<open>The claim as stated fails on a record without \<^verbatim>\<open>ltv\<close> and
  \<^verbatim>\<open>closing_costs\<close>: \<^verbatim>\<open>loan_constant\<close> raises \<^verbatim>\<open>KeyError\<close>, and an absent
  \<^verbatim>\<open>closing_costs\<close> is not read as 0.0.\<close>

theorem absent_fields_counterexample:
  "fst (generate_return_metrics sample_libs [sparse_input] 0) = Inl KeyError
   \<and> build_proforma sample_libs (sparse_input @ [(''closing_costs'', PNum 0)]) \<noteq>
       build_proforma sample_libs sparse_input"
proof -
  have "fst (generate_return_metrics sample_libs [sparse_input] 0) = Inl KeyError"
    by (simp add: generate_return_metrics_def dict_copy_def Let_def clean_sparse_input
        compute_metrics_sparse)
  moreover have "build_proforma sample_libs (sparse_input @ [(''closing_costs'', PNum 0)]) \<noteq>
       build_proforma sample_libs sparse_input"
  proof -
    obtain df0 eq0 where b0: "build_frames (sparse_assumptions 0) = Inr (df0, eq0)"
      using sparse_frames[of 0] by auto
    obtain df1 eq1 where b1: "build_frames (sparse_assumptions 0.02) = Inr (df1, eq1)"
      using sparse_frames[of "0.02"] by auto
    have "hd (UnleveredCashFlow eq0) = - 1000"
      using first_event_amounts(1)[OF b0] by (simp add: sparse_assumptions_def)
    moreover have "hd (UnleveredCashFlow eq1) = - 1020"
      using first_event_amounts(1)[OF b1] by (simp add: sparse_assumptions_def)
    ultimately have "eq0 \<noteq> eq1" by auto
    then show ?thesis
      unfolding build_proforma_def read_sparse_input read_sparse_input_closing bnd_Inr b0 b1
      by simp
  qed
  ultimately show ?thesis by simp
qed

section \<open>The IRR solver\<close>

lemma try_except_Inr [simp]: "try_except (Inr x) h = Inr x"
  by (simp add: try_except_def)

lemma try_except_Inl [simp]: "try_except (Inl e) h = h e"
  by (simp add: try_except_def)

lemma xirr_fallback_returns: "\<exists>r. xirr_fallback L c = Inr r"
  by (simp add: xirr_fallback_def Let_def)

lemma periodic_irr_returns:
  "\<exists>r. try_except (bnd (npf_irr L vs) (\<lambda>irr_m.
          Inr (if fl_truthy irr_m then Some (annualize irr_m) else None))) (\<lambda>e. Inr None) = Inr r"
  by (cases "npf_irr L vs") simp_all

lemma calc_xirr_returns: "\<exists>r. calc_xirr L series = Inr r"
proof (cases "xirr_xirr L (nonzero_by_date series)")
  case (Inr r)
  then show ?thesis by (simp add: calc_xirr_def Let_def)
next
  case (Inl e)
  obtain fb where fb: "xirr_fallback L (nonzero_by_date series) = Inr fb"
    using xirr_fallback_returns by blast
  show ?thesis
  proof (cases fb)
    case None
    then show ?thesis
      using Inl fb periodic_irr_returns[of L "map snd series"]
      by (simp add: calc_xirr_def Let_def)
  next
    case (Some r)
    then show ?thesis using Inl fb by (simp add: calc_xirr_def Let_def)
  qed
qed

lemma set_dict_set: "set (dict_set d k v) \<subseteq> insert (k, v) (set d)"
  by (induction d) (auto split: if_splits)

lemma length_dict_set: "length (dict_set d k v) \<le> Suc (length d)"
  by (induction d) (auto split: if_splits)

lemma foldl_dict_set:
  "set (foldl (\<lambda>d (t, v). dict_set d t v) d0 xs) \<subseteq> set d0 \<union> set xs
   \<and> length (foldl (\<lambda>d (t, v). dict_set d t v) d0 xs) \<le> length d0 + length xs"
proof (induction xs arbitrary: d0)
  case Nil
  then show ?case by simp
next
  case (Cons x xs)
  obtain t v where x: "x = (t, v)" by (cases x)
  have s: "set (dict_set d0 t v) \<subseteq> insert (t, v) (set d0)"
    and l: "length (dict_set d0 t v) \<le> Suc (length d0)"
    by (rule set_dict_set, rule length_dict_set)
  from Cons.IH[of "dict_set d0 t v"] s l show ?case
    by (auto simp: x)
qed

lemma nonzero_by_date_facts:
  "set (nonzero_by_date series) \<subseteq> set series"
  "length (nonzero_by_date series) \<le> length (filter (\<lambda>(t, v). v \<noteq> 0) series)"
  using foldl_dict_set[of "[]" "filter (\<lambda>(t, v). v \<noteq> 0) series"]
  by (auto simp: nonzero_by_date_def)

lemma set_insort_date: "set (insort_date x ys) = insert x (set ys)"
  by (induction ys) auto

lemma set_sorted_items: "set (sorted_items kvs) = set kvs"
  by (induction kvs) (simp_all add: sorted_items_def set_insort_date)

lemma xirr_fallback_degenerate:
  assumes "degenerate series"
  shows "xirr_fallback L (nonzero_by_date series) = Inr None"
proof -
  define lib where "lib = nonzero_by_date series"
  have sub: "set lib \<subseteq> set series"
    and len: "length lib \<le> length (filter (\<lambda>(t, v). v \<noteq> 0) series)"
    unfolding lib_def by (rule nonzero_by_date_facts)+
  from assms consider "length (filter (\<lambda>(t, v). v \<noteq> 0) series) < 2"
    | "list_all (\<lambda>(t, v). v \<le> 0) series" | "list_all (\<lambda>(t, v). v \<ge> 0) series"
    by (auto simp: degenerate_def)
  then have "xirr_fallback L lib = Inr None"
  proof cases
    case 1
    then have "length lib < 2" using len by simp
    then show ?thesis by (simp add: xirr_fallback_def)
  next
    case 2
    then have "\<not> (\<exists>c \<in> set (map snd (sorted_items lib)). c > 0)"
      using sub by (fastforce simp: set_sorted_items list_all_iff)
    then show ?thesis by (simp add: xirr_fallback_def Let_def)
  next
    case 3
    then have "\<not> (\<exists>c \<in> set (map snd (sorted_items lib)). c < 0)"
      using sub by (fastforce simp: set_sorted_items list_all_iff)
    then show ?thesis by (simp add: xirr_fallback_def Let_def)
  qed
  then show ?thesis by (simp add: lib_def)
qed

text \<open>
  What \<^verbatim>\<open>_calc_xirr\<close> does, whatever the library calls do. It returns (a number or
  \<^verbatim>\<open>None\<close>) and does not raise. When the date-aware library call returns, its result
  is the result, unchecked. On a series with fewer than two nonzero entries or with
  entries of one sign only, \<^verbatim>\<open>_xirr_fallback\<close> returns \<^verbatim>\<open>None\<close>, and
  \<^verbatim>\<open>_calc_xirr\<close> returns \<^verbatim>\<open>None\<close> when the date-aware library call raises and the
  periodic IRR call raises or returns 0.
\<close>

lemma calc_xirr_contract:
  "(\<exists>r. calc_xirr L series = Inr r)
   \<and> (\<forall>r. xirr_xirr L (nonzero_by_date series) = Inr r \<longrightarrow> calc_xirr L series = Inr r)
   \<and> (degenerate series \<longrightarrow> xirr_fallback L (nonzero_by_date series) = Inr None)
   \<and> (degenerate series \<and> isl (xirr_xirr L (nonzero_by_date series))
        \<and> (isl (npf_irr L (map snd series)) \<or> npf_irr L (map snd series) = Inr (Fin 0))
      \<longrightarrow> calc_xirr L series = Inr None)"
proof -
  have lib: "calc_xirr L series = Inr r" if "xirr_xirr L (nonzero_by_date series) = Inr r" for r
    using that by (simp add: calc_xirr_def Let_def)
  have "calc_xirr L series = Inr None"
    if d: "degenerate series" and x: "isl (xirr_xirr L (nonzero_by_date series))"
      and p: "isl (npf_irr L (map snd series)) \<or> npf_irr L (map snd series) = Inr (Fin 0)"
  proof -
    obtain e where e: "xirr_xirr L (nonzero_by_date series) = Inl e"
      using x by (cases "xirr_xirr L (nonzero_by_date series)") auto
    have fb: "xirr_fallback L (nonzero_by_date series) = Inr None"
      by (rule xirr_fallback_degenerate[OF d])
    from p show ?thesis
    proof
      assume "isl (npf_irr L (map snd series))"
      then obtain e' where "npf_irr L (map snd series) = Inl e'"
        by (cases "npf_irr L (map snd series)") auto
      then show ?thesis by (simp add: calc_xirr_def Let_def e fb)
    next
      assume "npf_irr L (map snd series) = Inr (Fin 0)"
      then show ?thesis by (simp add: calc_xirr_def Let_def e fb fl_truthy_def)
    qed
  qed
  then show ?thesis
    using calc_xirr_returns[of L series] xirr_fallback_degenerate[of series L] lib by blast
qed

lemma degenerate_inflows_only: "degenerate inflows_only"
  by (simp add: degenerate_def inflows_only_def)

lemma nonzero_inflows_only: "nonzero_by_date inflows_only = inflows_only"
  by (simp add: nonzero_by_date_def inflows_only_def)

lemma calc_xirr_all_calls_fail: "calc_xirr failing_libs inflows_only = Inr None"
proof -
  have h: "isl (xirr_xirr failing_libs (nonzero_by_date inflows_only))"
    "isl (npf_irr failing_libs (map snd inflows_only))"
    by (simp_all add: failing_libs_def no_xirr_def no_irr_def)
  show ?thesis
    using calc_xirr_contract[of failing_libs inflows_only] h degenerate_inflows_only
    by simp
qed

text \<open>
  C2. The claim is that \<^verbatim>\<open>_calc_xirr\<close> returns null, and does not raise, on a series
  that cannot be solved: fewer than two nonzero flows, or no sign change. It does not raise
  (\<open>calc_xirr_contract\<close>), but on the series of two inflows, 100 on 2020-01-01 and 50 on
  2021-01-01, it does not return null. Where the date-aware library call returns, its
  infinity is returned, since the call comes before any check of the signs. Where that
  call raises, \<^verbatim>\<open>_xirr_fallback\<close> does return \<^verbatim>\<open>None\<close> by its own sign guard, yet
  \<^verbatim>\<open>_calc_xirr\<close> goes on to the periodic IRR, whose \<^verbatim>\<open>nan\<close> passes the test
  \<^verbatim>\<open>if irr_m\<close> and is returned.
\<close>

theorem one_signed_series_is_not_null:
  "degenerate inflows_only
   \<and> calc_xirr sample_libs inflows_only = Inr (Some PosInf)
   \<and> xirr_fallback nan_irr_libs (nonzero_by_date inflows_only) = Inr None
   \<and> calc_xirr nan_irr_libs inflows_only = Inr (Some NaN)"
proof -
  have a: "calc_xirr sample_libs inflows_only = Inr (Some PosInf)"
    by (simp add: calc_xirr_def Let_def nonzero_inflows_only)
       (simp add: sample_libs_def xirr_package_def inflows_only_def)
  have fb: "xirr_fallback nan_irr_libs (nonzero_by_date inflows_only) = Inr None"
    by (rule xirr_fallback_degenerate[OF degenerate_inflows_only])
  have x: "xirr_xirr nan_irr_libs (nonzero_by_date inflows_only) = Inl LibraryError"
    "npf_irr nan_irr_libs (map snd inflows_only) = Inr NaN"
    by (simp_all add: nan_irr_libs_def no_xirr_def nan_irr_def)
  have b: "calc_xirr nan_irr_libs inflows_only = Inr (Some NaN)"
    by (simp add: calc_xirr_def Let_def x fb fl_truthy_def annualize_def)
  show ?thesis using degenerate_inflows_only a fb b by simp
qed

section \<open>The sale fields of the metrics\<close>

lemma round_half_even_of_int [simp]: "round_half_even (of_int k) = k"
  by (simp add: round_half_even_def Let_def)

lemma round_nearest_even_of_int: "round_nearest_even (of_int k) n = of_int k"
proof -
  have "of_int k * (10::real) ^ n = of_int (k * 10 ^ n)" by simp
  then have "round_half_even (of_int k * 10 ^ n) = k * 10 ^ n"
    by (simp only: round_half_even_of_int)
  then show ?thesis by (simp add: round_nearest_even_def)
qed

lemma read_assumptions_purchase_price:
  assumes "read_assumptions L a = Inr A"
  shows "f L (dget a ''purchase_price'' PNone) = Inr (purchase_price A)"
  using assms unfolding read_assumptions_def
  by (auto simp: bnd_Inr_iff)

lemma read_assumptions_hold:
  assumes "read_assumptions L a = Inr A"
  shows "\<exists>hy. f L (dget a ''hold_period_years'' (PNum 10)) = Inr hy \<and> hold_years A = py_int hy"
  using assms unfolding read_assumptions_def
  by (auto simp: bnd_Inr_iff)

lemma compute_metrics_sale_fields:
  assumes "compute_metrics L dc = Inr m"
  obtains A df eq where
    "read_assumptions L dc = Inr A" "build_frames A = Inr (df, eq)"
    "m_projected_sale_price m = Some (py_round L (py_round L (purchase_price A * 1.2) 2) 6)"
    "m_net_sale_proceeds m = Some (py_round L (py_round L (last (LeveredCashFlow eq)) 2) 6)"
proof -
  from assms obtain df eq m2 pp where
    bp: "build_proforma L dc = Inr (df, eq)"
    and lc: "loan_constant dc df = Inr m2"
    and pf: "py_float L (dget dc ''purchase_price'' (PNum 0)) = Inr pp"
    and p: "m_projected_sale_price m = round6 L (Some (py_round L (pp * 1.2) 2))"
    and n: "m_net_sale_proceeds m = round6 L (Some (py_round L (last (LeveredCashFlow eq)) 2))"
    unfolding compute_metrics_def Let_def
    by (auto simp: bnd_Inr_iff)
  from bp obtain A where ra: "read_assumptions L dc = Inr A" and bf: "build_frames A = Inr (df, eq)"
    by (auto simp: build_proforma_def bnd_Inr_iff)
  from lc obtain x where x: "map_of dc ''purchase_price'' = Some (PNum x)"
    unfolding loan_constant_def
    by (auto simp: bnd_Inr_iff dsub_def py_mul_def num_operand_def split: option.splits pyval.splits)
  have "pp = x" using pf x by (simp add: dget_def py_float_def)
  moreover have "purchase_price A = x"
    using read_assumptions_purchase_price[OF ra] x by (simp add: dget_def)
  ultimately have "pp = purchase_price A" by simp
  then show ?thesis
    using that[OF ra bf] p n by (simp add: round6_def)
qed

subsection \<open>No run on an AssumptionSet leaves the finite numbers\<close>

lemma bnd_finite:
  assumes "m \<noteq> Inl NonFinite" and "\<And>x. m = Inr x \<Longrightarrow> k x \<noteq> Inl NonFinite"
  shows "bnd m k \<noteq> Inl NonFinite"
  using assms by (cases m) simp_all

lemma dsub_finite: "dsub a k \<noteq> Inl NonFinite"
  by (simp add: dsub_def split: option.splits)

lemma num_operand_finite: "num_operand v \<noteq> Inl NonFinite"
  by (cases v) (simp_all add: num_operand_def)

lemma py_mul_finite: "py_mul u v \<noteq> Inl NonFinite"
  unfolding py_mul_def by (intro bnd_finite num_operand_finite) simp

lemma py_float_finite: "py_float L v \<noteq> Inl NonFinite"
  by (cases v) (simp_all add: py_float_def split: option.splits)

lemma going_in_cap_rate_finite: "going_in_cap_rate df a \<noteq> Inl NonFinite"
proof -
  have "bnd (dsub a ''purchase_price'') (\<lambda>p. bnd (num_operand p) (\<lambda>x. Inr (Some (n / x))))
          \<noteq> Inl NonFinite" for n
    by (intro bnd_finite dsub_finite num_operand_finite) simp
  then show ?thesis by (simp add: going_in_cap_rate_def Let_def)
qed

lemma loan_constant_finite: "loan_constant a df \<noteq> Inl NonFinite"
  unfolding loan_constant_def Let_def
  by (intro bnd_finite dsub_finite py_mul_finite) simp

lemma going_in_dscr_finite: "going_in_dscr a df \<noteq> Inl NonFinite"
  by (simp add: going_in_dscr_def Let_def)

lemma going_in_debt_yield_finite: "going_in_debt_yield a df \<noteq> Inl NonFinite"
  unfolding going_in_debt_yield_def Let_def
  by (intro bnd_finite dsub_finite py_mul_finite) simp

lemma exit_ltv_finite: "exit_ltv L a eq \<noteq> Inl NonFinite"
  unfolding exit_ltv_def Let_def
  by (intro bnd_finite py_float_finite) simp

lemma irr_finite: "unlevered_irr L eq \<noteq> Inl NonFinite" "levered_irr L eq \<noteq> Inl NonFinite"
  using calc_xirr_returns[of L] unfolding unlevered_irr_def levered_irr_def
  by (metis sum.distinct(1))+

lemma hold_operand_nonzero:
  assumes ra: "read_assumptions L a = Inr A" and h: "1 \<le> hold_years A"
    and d: "dsub a ''hold_period_years'' = Inr v" and n: "num_operand v = Inr x"
  shows "x \<noteq> 0"
proof
  assume z: "x = 0"
  from n have v: "v = PNum x" by (cases v) (simp_all add: num_operand_def)
  from d v z have "dget a ''hold_period_years'' (PNum 10) = PNum 0"
    by (simp add: dsub_def dget_def split: option.splits)
  then have "f L (dget a ''hold_period_years'' (PNum 10)) = Inr 0"
    by (simp add: f_def truthy_def)
  with read_assumptions_hold[OF ra] have "hold_years A = 0" by (auto simp: py_int_def)
  with h show False by simp
qed

lemma avg_unlevered_coc_finite:
  assumes ra: "read_assumptions L a = Inr A" and h: "1 \<le> hold_years A"
  shows "avg_unlevered_coc df a \<noteq> Inl NonFinite"
proof
  assume "avg_unlevered_coc df a = Inl NonFinite"
  then obtain pv hv hm den where
    p: "dsub a ''purchase_price'' = Inr pv" and hd: "dsub a ''hold_period_years'' = Inr hv"
    and m: "py_mul hv (PNum 12) = Inr hm" and dn: "py_mul pv (PNum hm) = Inr den"
    and t: "truthy pv" and z: "den = 0"
    unfolding avg_unlevered_coc_def
    by (auto simp: bnd_def dsub_finite py_mul_finite split: sum.splits if_splits)
  from m obtain x where x: "num_operand hv = Inr x" "hm = x * 12"
    by (auto simp: py_mul_def bnd_Inr_iff num_operand_def)
  from dn obtain y where y: "pv = PNum y" "den = y * hm"
    by (cases pv) (auto simp: py_mul_def bnd_Inr_iff num_operand_def)
  have "x \<noteq> 0" by (rule hold_operand_nonzero[OF ra h hd x(1)])
  moreover have "y \<noteq> 0" using t y(1) by (simp add: truthy_def)
  ultimately show False using z y(2) x(2) by simp
qed

lemma avg_levered_coc_finite:
  assumes ra: "read_assumptions L a = Inr A" and h: "1 \<le> hold_years A"
  shows "avg_levered_coc df a \<noteq> Inl NonFinite"
proof
  assume "avg_levered_coc df a = Inl NonFinite"
  then obtain hv hm e where
    hd: "dsub a ''hold_period_years'' = Inr hv"
    and m: "py_mul hv (PNum 12) = Inr hm" and e: "e \<noteq> 0" "e * hm = 0"
    unfolding avg_levered_coc_def Let_def
    by (auto simp: bnd_def dsub_finite py_mul_finite num_operand_finite
        split: sum.splits if_splits)
  from m obtain x where x: "num_operand hv = Inr x" "hm = x * 12"
    by (auto simp: py_mul_def bnd_Inr_iff num_operand_def)
  have "x \<noteq> 0" by (rule hold_operand_nonzero[OF ra h hd x(1)])
  then show False using e x(2) by simp
qed

lemma build_proforma_finite:
  assumes ra: "read_assumptions L a = Inr A" and s: "assumption_set A"
  shows "build_proforma L a \<noteq> Inl NonFinite"
proof (cases "date_of_close A")
  case None
  then have "build_frames A = Inl ValueError" by (simp add: build_frames_def Let_def)
  then show ?thesis by (simp add: build_proforma_def ra)
next
  case (Some doc)
  from s have "\<exists>r. build_frames A = Inr r"
    unfolding assumption_set_def by (intro build_frames_succeeds[OF Some]) simp_all
  then show ?thesis by (auto simp: build_proforma_def ra)
qed

lemma compute_metrics_finite:
  assumes ra: "read_assumptions L a = Inr A" and s: "assumption_set A"
  shows "compute_metrics L a \<noteq> Inl NonFinite"
proof -
  have h: "1 \<le> hold_years A" using s by (simp add: assumption_set_def)
  show ?thesis
  proof (cases "build_proforma L a")
    case (Inl e)
    then have "compute_metrics L a = Inl e" by (simp add: compute_metrics_def)
    then show ?thesis using build_proforma_finite[OF ra s] Inl by simp
  next
    case (Inr p)
    obtain df eq where p: "p = (df, eq)" by (cases p)
    show ?thesis
      unfolding compute_metrics_def Inr p bnd_Inr prod.case Let_def
      by (intro bnd_finite going_in_cap_rate_finite
          loan_constant_finite going_in_dscr_finite going_in_debt_yield_finite exit_ltv_finite
          irr_finite avg_unlevered_coc_finite[OF ra h] avg_levered_coc_finite[OF ra h]
          py_float_finite)
        (simp_all add: unlevered_equity_multiple_def levered_equity_multiple_def
          year1_op_ex_ratio_def Let_def)
  qed
qed

lemma unlevered_example_frames:
  assumes bf: "build_frames unlevered_assumptions = Inr (df, eq)"
  shows "NetOperatingIncome df = replicate 12 100"
    and "CashFlowAfterDebtService df = replicate 12 100"
    and "PrincipalPayment df = replicate 12 0"
proof -
  note len = frames_lengths[OF bf]
  have n: "length (idx df) = 12"
    using len(1) by (simp add: unlevered_assumptions_def)
  have g: "- 1 < rent_growth unlevered_assumptions" "- 1 < expense_growth unlevered_assumptions"
    by (simp_all add: unlevered_assumptions_def)
  have noi_i: "NetOperatingIncome df ! i = 100" if "i < 12" for i
  proof -
    have i: "i < length (idx df)" using that n by simp
    show ?thesis
      using growth_columns_nth[OF bf i g] noi_nth[OF bf i]
      by (simp add: unlevered_assumptions_def)
  qed
  show noi: "NetOperatingIncome df = replicate 12 100"
    by (rule nth_equalityI) (simp_all add: len(9) n noi_i)
  from bf obtain doc rc ec cc where u:
    "date_of_close unlevered_assumptions = Some doc"
    "map_res (np_power (1 + rent_growth unlevered_assumptions)) (YearsFrac df) = Inr rc"
    "map_res (np_power (1 + expense_growth unlevered_assumptions)) (YearsFrac df) = Inr ec"
    "map_res (np_power (1 + capex_growth unlevered_assumptions)) (YearsFrac df) = Inr cc"
    "CapitalExpenses df = map (\<lambda>p. - capex_initial unlevered_assumptions * p) cc"
    "CashFlowBeforeDebtService df = vadd (NetOperatingIncome df) (CapitalExpenses df)"
    by (rule build_frames_monthly)
  have "length cc = 12"
    using map_res_Inr[OF u(4)] len(3) n by simp
  then have "CapitalExpenses df = replicate 12 0"
    by (simp add: u(5) unlevered_assumptions_def map_replicate_const)
  then have cfb: "CashFlowBeforeDebtService df = replicate 12 100"
    by (simp add: u(6) noi vadd_zeros)
  have z: "purchase_price unlevered_assumptions * ltv unlevered_assumptions = 0"
    by (simp add: unlevered_assumptions_def)
  have nl: "PrincipalPayment df = replicate (nat (hold_years unlevered_assumptions * 12)) 0"
    "CashFlowAfterDebtService df = CashFlowBeforeDebtService df"
    using no_loan_frames[OF bf z] by simp_all
  show "CashFlowAfterDebtService df = replicate 12 100"
    by (simp add: nl(2) cfb)
  show "PrincipalPayment df = replicate 12 0"
    using nl(1) by (simp add: unlevered_assumptions_def)
qed

lemma unlevered_example_waterfall:
  assumes bf: "build_frames unlevered_assumptions = Inr (df, eq)"
  shows "terminal_sale_price unlevered_assumptions df = 12000"
    and "terminal_net_proceeds unlevered_assumptions df = 12000"
    and "last (LeveredCashFlow eq) = 12100"
proof -
  note ex = unlevered_example_frames[OF bf]
  have t: "trailing_noi df = 1200"
    by (simp add: trailing_noi_def ex(1) sum_list_replicate)
  show sp: "terminal_sale_price unlevered_assumptions df = 12000"
    by (simp add: terminal_sale_price_def t unlevered_assumptions_def)
  have lp: "terminal_loan_payoff unlevered_assumptions df = 0"
    by (simp add: terminal_loan_payoff_def cumulative_principal_paid_def ex(3)
        sum_list_replicate unlevered_assumptions_def)
  have sc: "terminal_sale_cost unlevered_assumptions df = 0"
    by (simp add: terminal_sale_cost_def unlevered_assumptions_def)
  show np: "terminal_net_proceeds unlevered_assumptions df = 12000"
    by (simp add: terminal_net_proceeds_def sp lp sc)
  have h: "1 \<le> hold_years unlevered_assumptions"
    by (simp add: unlevered_assumptions_def)
  have "last (LeveredCashFlow eq) =
      last (CashFlowAfterDebtService df)
        + (terminal_sale_price unlevered_assumptions df - terminal_sale_cost unlevered_assumptions df
           - terminal_loan_payoff unlevered_assumptions df)"
    using last_event_amounts[OF bf h] by simp
  then show "last (LeveredCashFlow eq) = 12100"
    by (simp add: ex(2) sp sc lp)
qed

lemma clean_unlevered_input:
  "clean_loop L [unlevered_input, unlevered_input] (Suc 0) unlevered_input =
     [unlevered_input, unlevered_input]"
  by (simp add: unlevered_input_def store_set_def is_int_float_str_def text_keys_def
      safe_float_def py_float_def)

lemma generate_unlevered:
  "generate_return_metrics L [unlevered_input] 0 =
     (compute_metrics L unlevered_input, [unlevered_input, unlevered_input])"
  by (simp add: generate_return_metrics_def dict_copy_def Let_def clean_unlevered_input)

lemma compute_metrics_unlevered: "\<exists>m. compute_metrics L unlevered_input = Inr m"
proof -
  obtain df eq where bf: "build_frames unlevered_assumptions = Inr (df, eq)"
    using build_frames_succeeds[of unlevered_assumptions "Date 2020 1 1"]
    by (auto simp: unlevered_assumptions_def)
  have bp: "build_proforma L unlevered_input = Inr (df, eq)"
    unfolding build_proforma_def read_unlevered_input bnd_Inr by (rule bf)
  obtain r6 r7 where irr: "unlevered_irr L eq = Inr r6" "levered_irr L eq = Inr r7"
    using calc_xirr_returns unfolding unlevered_irr_def levered_irr_def by meson
  have m1: "\<exists>v. going_in_cap_rate df unlevered_input = Inr v"
    by (simp add: going_in_cap_rate_def unlevered_input_def dget_def dsub_def truthy_def
        num_operand_def Let_def)
  have m2: "\<exists>v. loan_constant unlevered_input df = Inr v"
    by (simp add: loan_constant_def unlevered_input_def dsub_def py_mul_def num_operand_def Let_def)
  have m3: "\<exists>v. going_in_dscr unlevered_input df = Inr v"
    by (simp add: going_in_dscr_def Let_def)
  have m4: "\<exists>v. going_in_debt_yield unlevered_input df = Inr v"
    by (simp add: going_in_debt_yield_def unlevered_input_def dsub_def py_mul_def num_operand_def
        Let_def)
  have m5: "\<exists>v. exit_ltv L unlevered_input eq = Inr v"
    by (simp add: exit_ltv_def unlevered_input_def dget_def py_float_def Let_def)
  have m10: "\<exists>v. avg_unlevered_coc df unlevered_input = Inr v"
    by (simp add: avg_unlevered_coc_def unlevered_input_def dsub_def py_mul_def num_operand_def
        truthy_def)
  have m11: "\<exists>v. avg_levered_coc df unlevered_input = Inr v"
    by (simp add: avg_levered_coc_def unlevered_input_def dsub_def dget_def py_mul_def
        num_operand_def Let_def)
  have pf: "\<exists>v. py_float L (dget unlevered_input ''purchase_price'' (PNum 0)) = Inr v"
    "\<exists>v. py_float L (dget unlevered_input ''cost_of_sale_percentage'' (PNum 0.05)) = Inr v"
    by (simp_all add: unlevered_input_def dget_def py_float_def)
  from m1 m2 m3 m4 m5 m10 m11 pf obtain v1 v2 v3 v4 v5 v10 v11 p1 p2 where v:
    "going_in_cap_rate df unlevered_input = Inr v1" "loan_constant unlevered_input df = Inr v2"
    "going_in_dscr unlevered_input df = Inr v3" "going_in_debt_yield unlevered_input df = Inr v4"
    "exit_ltv L unlevered_input eq = Inr v5" "avg_unlevered_coc df unlevered_input = Inr v10"
    "avg_levered_coc df unlevered_input = Inr v11"
    "py_float L (dget unlevered_input ''purchase_price'' (PNum 0)) = Inr p1"
    "py_float L (dget unlevered_input ''cost_of_sale_percentage'' (PNum 0.05)) = Inr p2"
    by blast
  show ?thesis
    unfolding compute_metrics_def bp bnd_Inr prod.case v irr unlevered_equity_multiple_def
      levered_equity_multiple_def year1_op_ex_ratio_def Let_def
    by simp
qed

lemma generate_unlevered_result:
  "generate_return_metrics L [unlevered_input] 0 =
     (Inr (projr (compute_metrics L unlevered_input)), [unlevered_input, unlevered_input])"
  using compute_metrics_unlevered[of L] by (auto simp: generate_unlevered)

lemma unlevered_sale_fields:
  "m_projected_sale_price (projr (compute_metrics sample_libs unlevered_input)) = Some 1200"
  "m_net_sale_proceeds (projr (compute_metrics sample_libs unlevered_input)) = Some 12100"
proof -
  obtain m where m: "compute_metrics sample_libs unlevered_input = Inr m"
    using compute_metrics_unlevered by blast
  from m obtain A df eq where f:
    "read_assumptions sample_libs unlevered_input = Inr A" "build_frames A = Inr (df, eq)"
    "m_projected_sale_price m =
       Some (py_round sample_libs (py_round sample_libs (purchase_price A * 1.2) 2) 6)"
    "m_net_sale_proceeds m =
       Some (py_round sample_libs (py_round sample_libs (last (LeveredCashFlow eq)) 2) 6)"
    by (rule compute_metrics_sale_fields)
  have A: "A = unlevered_assumptions" using f(1) by (simp add: read_unlevered_input)
  have bf: "build_frames unlevered_assumptions = Inr (df, eq)" using f(2) A by simp
  have r: "py_round sample_libs = round_nearest_even" by (simp add: sample_libs_def)
  have r1: "round_nearest_even 1200 n = 1200" for n
    using round_nearest_even_of_int[of 1200 n] by simp
  have r2: "round_nearest_even 12100 n = 12100" for n
    using round_nearest_even_of_int[of 12100 n] by simp
  have p: "py_round sample_libs (py_round sample_libs (purchase_price A * 1.2) 2) 6 = 1200"
    by (simp add: A unlevered_assumptions_def r r1)
  have n: "py_round sample_libs (py_round sample_libs (last (LeveredCashFlow eq)) 2) 6 = 12100"
    by (simp add: unlevered_example_waterfall(3)[OF bf] r r2)
  show "m_projected_sale_price (projr (compute_metrics sample_libs unlevered_input)) = Some 1200"
    "m_net_sale_proceeds (projr (compute_metrics sample_libs unlevered_input)) = Some 12100"
    using f(3,4) p n by (simp_all add: m)
qed

lemma assumption_set_unlevered: "assumption_set unlevered_assumptions"
  by (simp add: assumption_set_def unlevered_assumptions_def)

text \<open>
  C1, as amended. Let \<^verbatim>\<open>generate_return_metrics\<close> run on a record from which
  \<^verbatim>\<open>build_proforma\<close> reads the assumptions \<open>A\<close>. If \<open>A\<close> is an AssumptionSet of the
  data model, the run stays within the finite numbers, so every run that returns is one
  that returns metrics here. When it returns its metrics, \<^verbatim>\<open>projected_sale_price\<close> is
  the purchase price times 1.2, rounded to two decimals and then to six: an estimate that
  does not use the sale price of the terminal waterfall. And \<^verbatim>\<open>net_sale_proceeds\<close> is
  the last levered equity amount, rounded the same way: for a hold of at least one year,
  the last month's cash flow after debt service plus the waterfall's net proceeds
  \<open>sale_price - sale_cost - loan_payoff\<close>. The rounding is Python's \<^verbatim>\<open>round\<close>, whatever
  it returns.
\<close>

theorem sale_fields_are_estimates:
  assumes "generate_return_metrics L S data = (r, S')"
    and "read_assumptions L (S' ! length S) = Inr A"
  shows "(assumption_set A \<longrightarrow> r \<noteq> Inl NonFinite)
       \<and> (\<forall>m. r = Inr m \<longrightarrow>
            (\<exists>df eq.
                build_frames A = Inr (df, eq)
              \<and> m_projected_sale_price m =
                  Some (py_round L (py_round L (purchase_price A * 1.2) 2) 6)
              \<and> m_net_sale_proceeds m =
                  Some (py_round L (py_round L (last (LeveredCashFlow eq)) 2) 6)
              \<and> (1 \<le> hold_years A \<longrightarrow>
                    last (LeveredCashFlow eq) =
                      last (CashFlowAfterDebtService df) + terminal_net_proceeds A df)))"
proof -
  from assms(1) have cm: "r = compute_metrics L (S' ! length S)"
    by (auto simp: generate_return_metrics_def dict_copy_def Let_def)
  have fin: "r \<noteq> Inl NonFinite" if "assumption_set A"
    unfolding cm by (rule compute_metrics_finite[OF assms(2) that])
  have fields: "\<exists>df eq.
                build_frames A = Inr (df, eq)
              \<and> m_projected_sale_price m =
                  Some (py_round L (py_round L (purchase_price A * 1.2) 2) 6)
              \<and> m_net_sale_proceeds m =
                  Some (py_round L (py_round L (last (LeveredCashFlow eq)) 2) 6)
              \<and> (1 \<le> hold_years A \<longrightarrow>
                    last (LeveredCashFlow eq) =
                      last (CashFlowAfterDebtService df) + terminal_net_proceeds A df)"
    if "r = Inr m" for m
  proof -
    from that cm have "compute_metrics L (S' ! length S) = Inr m" by simp
    then obtain A' df eq where f:
      "read_assumptions L (S' ! length S) = Inr A'" "build_frames A' = Inr (df, eq)"
      "m_projected_sale_price m =
         Some (py_round L (py_round L (purchase_price A' * 1.2) 2) 6)"
      "m_net_sale_proceeds m =
         Some (py_round L (py_round L (last (LeveredCashFlow eq)) 2) 6)"
      by (rule compute_metrics_sale_fields)
    have A: "A' = A" using f(1) assms(2) by simp
    have "last (LeveredCashFlow eq) =
            last (CashFlowAfterDebtService df) + terminal_net_proceeds A df"
      if "1 \<le> hold_years A"
      using last_event_amounts[OF f(2)[unfolded A] that] by (simp add: terminal_net_proceeds_def)
    then show ?thesis using f(2,3,4) unfolding A by blast
  qed
  show ?thesis using fin fields by blast
qed

theorem sale_fields_are_estimates_witness:
  "generate_return_metrics sample_libs [unlevered_input] 0 =
     (Inr (projr (compute_metrics sample_libs unlevered_input)), [unlevered_input, unlevered_input])
   \<and> read_assumptions sample_libs ([unlevered_input, unlevered_input] ! length [unlevered_input])
       = Inr unlevered_assumptions
   \<and> assumption_set unlevered_assumptions
   \<and> 1 \<le> hold_years unlevered_assumptions
   \<and> fst (generate_return_metrics sample_libs [unlevered_input] 0) \<noteq> Inl NonFinite
   \<and> (\<exists>df eq.
         build_frames unlevered_assumptions = Inr (df, eq)
       \<and> m_projected_sale_price (projr (compute_metrics sample_libs unlevered_input)) =
           Some (py_round sample_libs
                   (py_round sample_libs (purchase_price unlevered_assumptions * 1.2) 2) 6)
       \<and> m_net_sale_proceeds (projr (compute_metrics sample_libs unlevered_input)) =
           Some (py_round sample_libs (py_round sample_libs (last (LeveredCashFlow eq)) 2) 6)
       \<and> last (LeveredCashFlow eq) =
           last (CashFlowAfterDebtService df) + terminal_net_proceeds unlevered_assumptions df)"
proof -
  have g: "generate_return_metrics sample_libs [unlevered_input] 0 =
     (Inr (projr (compute_metrics sample_libs unlevered_input)), [unlevered_input, unlevered_input])"
    by (rule generate_unlevered_result)
  have ra: "read_assumptions sample_libs
              ([unlevered_input, unlevered_input] ! length [unlevered_input])
            = Inr unlevered_assumptions"
    by (simp add: read_unlevered_input)
  have h: "1 \<le> hold_years unlevered_assumptions"
    by (simp add: unlevered_assumptions_def)
  from sale_fields_are_estimates[OF g ra] assumption_set_unlevered h
  show ?thesis by (simp add: g read_unlevered_input)
qed

lemma unlevered_proforma_waterfall: "proforma_waterfall L unlevered_input = Inr (12000, 12000)"
proof -
  obtain df eq where bf: "build_frames unlevered_assumptions = Inr (df, eq)"
    using build_frames_succeeds[of unlevered_assumptions "Date 2020 1 1"]
    by (auto simp: unlevered_assumptions_def)
  show ?thesis
    unfolding proforma_waterfall_def read_unlevered_input bnd_Inr frames_waterfall_def bf
      waterfall_of_def fst_conv
    using unlevered_example_waterfall(1,2)[OF bf] by simp
qed

text \<open>The claim as stated fails on the one-year hold without a loan: the waterfall's
  sale price and net proceeds are both 12000, the reported fields are 1200 and 12100.\<close>

theorem sale_fields_counterexample:
  "map_sum id m_projected_sale_price (fst (generate_return_metrics sample_libs [unlevered_input] 0))
     = Inr (Some 1200)
   \<and> map_sum id m_net_sale_proceeds (fst (generate_return_metrics sample_libs [unlevered_input] 0))
     = Inr (Some 12100)
   \<and> proforma_waterfall sample_libs unlevered_input = Inr (12000, 12000)"
  by (simp add: generate_unlevered_result unlevered_sale_fields unlevered_proforma_waterfall)

end
